theory Spec2Isabelle
  imports Main
begin

section \<open>JSON values and the JavaScript operations the scripts apply to them\<close>

text \<open>
  A decoded JSON value, as \<open>response.json()\<close> or \<open>JSON.parse\<close> returns it. An object is
  the list of its own properties (a decoded object has each key once; lookup takes the
  first). A number is given by the text that \<open>String(n)\<close> produces for it (\<open>1\<close>, \<open>-2.5\<close>,
  \<open>1e+21\<close>): the code below never calculates with a decoded number, it only tests
  one for truth and renders it in a message. Zero, of either sign, is the number whose
  text is \<open>0\<close>. A property that is absent reads as \<open>undefined\<close>, modelled as \<open>None\<close>.
\<close>

datatype json =
    JNull
  | JBool bool
  | JNum string
  | JStr string
  | JArr "json list"
  | JObj "(string \<times> json) list"

text \<open>\<open>!!v\<close>: null, false, 0 and the empty string are falsy.\<close>

fun truthy :: "json \<Rightarrow> bool" where
  "truthy JNull = False"
| "truthy (JBool b) = b"
| "truthy (JNum t) = (t \<noteq> ''0'')"
| "truthy (JStr s) = (s \<noteq> [])"
| "truthy (JArr xs) = True"
| "truthy (JObj kvs) = True"

text \<open>\<open>!v\<close> for a value that may be \<open>undefined\<close>.\<close>

fun falsy :: "json option \<Rightarrow> bool" where
  "falsy None = True"
| "falsy (Some v) = (if truthy v then False else True)"

text \<open>\<open>typeof v !== 'object'\<close>: null, arrays and objects have type \<open>object\<close>.\<close>

fun not_object :: "json \<Rightarrow> bool" where
  "not_object JNull = False"
| "not_object (JArr xs) = False"
| "not_object (JObj kvs) = False"
| "not_object v = True"

text \<open>\<open>typeof v !== 'string'\<close>.\<close>

fun not_string :: "json option \<Rightarrow> bool" where
  "not_string (Some (JStr s)) = False"
| "not_string v = True"

text \<open>
  \<open>v.key\<close> for a value \<open>v\<close> that is not null: own properties of an object; on an array,
  a string, a number or a boolean none of the keys the scripts read
  (\<open>$schema\<close>, \<open>name\<close>, \<open>type\<close>, \<open>path\<close>, \<open>files\<close>, \<open>title\<close>, ...) exists, so the read
  gives \<open>undefined\<close>. Reading a property of null throws; the callers model that case.
\<close>

fun js_prop :: "json \<Rightarrow> string \<Rightarrow> json option" where
  "js_prop (JObj kvs) k = map_of kvs k"
| "js_prop v k = None"

text \<open>
  The decimal digits of a natural number: \<open>String(n)\<close> for the indices, lengths and exit
  statuses the code renders, all of them far below \<open>1e21\<close>, where the exponent form
  starts.
\<close>

fun show_nat :: "nat \<Rightarrow> string" where
  "show_nat n =
     (if n < 10 then [''0123456789'' ! n]
      else show_nat (n div 10) @ [''0123456789'' ! (n mod 10)])"

declare show_nat.simps [simp del]

fun join_with :: "string \<Rightarrow> string list \<Rightarrow> string" where
  "join_with sep [] = []"
| "join_with sep [x] = x"
| "join_with sep (x # y # ys) = x @ sep @ join_with sep (y # ys)"

text \<open>
  \<open>String(v)\<close>, the conversion a template literal applies; \<open>None\<close> is the TypeError it
  throws. An object is converted by its \<open>toString\<close> method: a decoded object inherits the
  one that gives \<open>[object Object]\<close>, unless it has a key \<open>toString\<close> of its own. The
  value of that key is decoded JSON and so not callable, the inherited \<open>valueOf\<close> returns
  the object itself, and the conversion throws. An array joins the conversions of its
  elements with commas (null elements give the empty string), and throws when one of
  them does.
\<close>

fun js_string :: "json \<Rightarrow> string option" where
  "js_string JNull = Some ''null''"
| "js_string (JBool b) = Some (if b then ''true'' else ''false'')"
| "js_string (JNum t) = Some t"
| "js_string (JStr s) = Some s"
| "js_string (JArr xs) =
     map_option (join_with '','')
       (those (map (\<lambda>x. if x = JNull then Some [] else js_string x) xs))"
| "js_string (JObj kvs) =
     (if map_of kvs ''toString'' = None then Some ''[object Object]'' else None)"

fun js_string_opt :: "json option \<Rightarrow> string option" where
  "js_string_opt None = Some ''undefined''"
| "js_string_opt (Some v) = js_string v"

text \<open>The message of that TypeError, which is the engine's.\<close>

definition no_default_value :: string where
  "no_default_value = ''TypeError: No default value''"

text \<open>The string held by a value that \<open>typeof\<close> has found to be a string.\<close>

fun string_value :: "json option \<Rightarrow> string" where
  "string_value (Some (JStr s)) = s"
| "string_value v = []"

section \<open>The validator (shared validate module)\<close>

text \<open>
  \<open>validateRegistryItem\<close> of the shared validation utilities (in \<open>src\<close> the second
  document of \<open>shared/fetch.ts\<close>).
\<close>

definition VALID_ITEM_TYPES :: "string list" where
  "VALID_ITEM_TYPES =
     [''registry:style'', ''registry:lib'', ''registry:example'', ''registry:block'',
      ''registry:component'', ''registry:ui'', ''registry:hook'', ''registry:theme'',
      ''registry:page'']"

definition REGISTRY_ITEM_SCHEMA :: string where
  "REGISTRY_ITEM_SCHEMA = ''https://ui.shadcn.com/schema/registry-item.json''"

text \<open>
  \<open>ValidationResult\<close>: \<open>{valid, error?, warnings?}\<close>. An absent optional field is \<open>None\<close>.
\<close>

record ValidationResult =
  valid :: bool
  error :: "string option"
  warnings :: "string list option"

definition invalid :: "string \<Rightarrow> ValidationResult" where
  "invalid msg = \<lparr>valid = False, error = Some msg, warnings = None\<rparr>"

text \<open>
  The \<open>$schema\<close> check, made before the required fields are looked at: the warnings it
  collects, or \<open>Inl\<close> when rendering a non-standard \<open>$schema\<close> in the warning throws.
\<close>

definition schema_warnings :: "json \<Rightarrow> string + string list" where
  "schema_warnings data =
     (if falsy (js_prop data ''$schema'') then Inr [''Missing $schema field'']
      else if js_prop data ''$schema'' \<noteq> Some (JStr REGISTRY_ITEM_SCHEMA)
      then (case js_string_opt (js_prop data ''$schema'') of
              None \<Rightarrow> Inl no_default_value
            | Some rendered \<Rightarrow> Inr [''Non-standard $schema: '' @ rendered])
      else Inr [])"

text \<open>
  The loop over \<open>data.files\<close>, from index \<open>i\<close>. \<open>Inl\<close> is the TypeError that reading
  \<open>file.path\<close> throws when the element is null (its message is the engine's);
  \<open>Inr (Some msg)\<close> is the early return of an invalid result with that message;
  \<open>Inr None\<close> is the loop running to its end.
\<close>

fun check_files :: "nat \<Rightarrow> json list \<Rightarrow> string + string option" where
  "check_files i [] = Inr None"
| "check_files i (file # rest) =
     (if file = JNull
      then Inl ''TypeError: null is not an object (evaluating file.path)''
      else if falsy (js_prop file ''path'') \<or> not_string (js_prop file ''path'')
      then Inr (Some (''files['' @ show_nat i @ '']: missing path''))
      else if falsy (js_prop file ''type'') \<or> not_string (js_prop file ''type'')
      then Inr (Some (''files['' @ show_nat i @ '']: missing type''))
      else check_files (Suc i) rest)"

text \<open>\<open>Array.isArray(v)\<close> and \<open>v.every(d => typeof d === 'string')\<close>.\<close>

fun every_string :: "json list \<Rightarrow> bool" where
  "every_string [] = True"
| "every_string (d # ds) = (if not_string (Some d) then False else every_string ds)"

text \<open>
  The two dependency checks have the same shape; \<open>field\<close> is \<open>dependencies\<close> or
  \<open>registryDependencies\<close>. \<open>None\<close>: the check passes.
\<close>

definition check_string_array :: "json \<Rightarrow> string \<Rightarrow> string option" where
  "check_string_array data field =
     (case js_prop data field of
        None \<Rightarrow> None
      | Some (JArr ds) \<Rightarrow>
          (if every_string ds then None else Some (field @ '' must be string array''))
      | Some v \<Rightarrow> Some (field @ '' must be an array''))"

text \<open>
  \<open>validateRegistryItem(item: unknown): ValidationResult\<close>. \<open>Inr\<close> is the returned
  result, \<open>Inl\<close> an exception leaving the function.
\<close>

definition validateRegistryItem :: "json \<Rightarrow> string + ValidationResult" where
  "validateRegistryItem item =
     (if falsy (Some item) \<or> not_object item
      then Inr (invalid ''Item must be an object'')
      else
        (case schema_warnings item of
           Inl exn \<Rightarrow> Inl exn
         | Inr collected \<Rightarrow>
        (if falsy (js_prop item ''name'') \<or> not_string (js_prop item ''name'')
         then Inr (invalid ''Missing or invalid name field'')
         else if falsy (js_prop item ''type'') \<or> not_string (js_prop item ''type'')
         then Inr (invalid ''Missing or invalid type field'')
         else if string_value (js_prop item ''type'') \<notin> set VALID_ITEM_TYPES
         then Inr (invalid (''Invalid type: '' @ string_value (js_prop item ''type'')))
         else
           (case (case js_prop item ''files'' of
                    None \<Rightarrow> Inr None
                  | Some (JArr files) \<Rightarrow> check_files 0 files
                  | Some v \<Rightarrow> Inr (Some ''files must be an array'')) of
              Inl exn \<Rightarrow> Inl exn
            | Inr (Some msg) \<Rightarrow> Inr (invalid msg)
            | Inr None \<Rightarrow>
                (case check_string_array item ''dependencies'' of
                   Some msg \<Rightarrow> Inr (invalid msg)
                 | None \<Rightarrow>
                     (case check_string_array item ''registryDependencies'' of
                        Some msg \<Rightarrow> Inr (invalid msg)
                      | None \<Rightarrow>
                          Inr \<lparr>valid = True, error = None,
                               warnings = (if collected \<noteq> [] then Some collected
                                           else None)\<rparr>))))))"

text \<open>An item passes validation when the validator returns a result with \<open>valid\<close> set.\<close>

definition passes_validation :: "json \<Rightarrow> bool" where
  "passes_validation item =
     (case validateRegistryItem item of Inl exn \<Rightarrow> False | Inr r \<Rightarrow> valid r)"

section \<open>Effects: the network and the file system\<close>

text \<open>
  The scripts act on the world through \<open>fetch\<close>, \<open>setTimeout\<close> (in \<open>sleep\<close>), \<open>mkdir\<close> and
  \<open>writeFile\<close>. A run is modelled by the value it returns together with the trace of
  these calls, in program order. \<open>Fetch url\<close> is one HTTP attempt, \<open>Sleep ms\<close> one
  completed \<open>sleep(ms)\<close>, \<open>Mkdir dir\<close> one recursive \<open>mkdir\<close>, and \<open>Write path v\<close> one
  \<open>writeFile(path, JSON.stringify(v, null, 2))\<close>: a file's content is represented by the
  value that is serialised into it. The file-system calls are taken to succeed, and
  delays are exact integers of milliseconds.
\<close>

datatype event =
    Fetch string
  | Sleep nat
  | Mkdir string
  | Write string json

text \<open>
  The remote side: for a URL, the outcome of the \<open>k\<close>-th attempt (from 0) of one retrying
  call. \<open>Inl msg\<close> is an attempt that throws (transport failure, a non-2xx status, which
  the code turns into \<open>Error('HTTP <status>: <text>')\<close>, or a body that does not decode);
  \<open>Inr v\<close> is the decoded body. The index endpoint answers with the index's \<open>items\<close>,
  the detail endpoints with arbitrary JSON.
\<close>

type_synonym 'a responses = "string \<Rightarrow> nat \<Rightarrow> string + 'a"

text \<open>The output directory as the file system holds it: files by path, and directories.\<close>

record filesystem =
  files :: "string \<Rightarrow> json option"
  dirs :: "string set"

fun apply_event :: "event \<Rightarrow> filesystem \<Rightarrow> filesystem" where
  "apply_event (Write path v) fs = fs\<lparr>files := (files fs)(path \<mapsto> v)\<rparr>"
| "apply_event (Mkdir dir) fs = fs\<lparr>dirs := insert dir (dirs fs)\<rparr>"
| "apply_event (Fetch url) fs = fs"
| "apply_event (Sleep ms) fs = fs"

fun apply_events :: "event list \<Rightarrow> filesystem \<Rightarrow> filesystem" where
  "apply_events [] fs = fs"
| "apply_events (e # es) fs = apply_events es (apply_event e fs)"

fun is_fetch :: "event \<Rightarrow> bool" where
  "is_fetch (Fetch url) = True"
| "is_fetch e = False"

fun touches_disk :: "event \<Rightarrow> bool" where
  "touches_disk (Write path v) = True"
| "touches_disk (Mkdir dir) = True"
| "touches_disk e = False"

text \<open>The durations of the sleeps of a trace, in order.\<close>

fun sleeps :: "event list \<Rightarrow> nat list" where
  "sleeps [] = []"
| "sleeps (Sleep ms # es) = ms # sleeps es"
| "sleeps (e # es) = sleeps es"

section \<open>The retrying fetch\<close>

subsection \<open>The shared fetch module\<close>

definition DEFAULT_retryCount :: nat where
  "DEFAULT_retryCount = 3"

definition DEFAULT_retryDelay :: nat where
  "DEFAULT_retryDelay = 1000"

text \<open>
  The \<open>for (attempt = 0; attempt <= retries; attempt++)\<close> loop of the shared
  \<open>fetchWithRetry\<close>, entered at \<open>attempt\<close> with the current \<open>lastError\<close>. \<open>respond k\<close> is
  the outcome of the \<open>k\<close>-th attempt on this URL. The result is the returned body or the
  thrown error's message, with the trace. \<open>retries\<close> is a count (a natural number).
\<close>

function fetch_loop ::
  "(nat \<Rightarrow> string + 'a) \<Rightarrow> string \<Rightarrow> nat \<Rightarrow> nat \<Rightarrow> nat \<Rightarrow> string option
     \<Rightarrow> (string + 'a) \<times> event list" where
  "fetch_loop respond url retries baseDelay attempt lastError =
     (if attempt \<le> retries
      then (case respond attempt of
              Inr body \<Rightarrow> (Inr body, [Fetch url])
            | Inl err \<Rightarrow>
                (let backoff = (if attempt < retries
                                then [Sleep (baseDelay * 2 ^ attempt)] else []);
                     rest = fetch_loop respond url retries baseDelay (Suc attempt) (Some err)
                 in (fst rest, Fetch url # backoff @ snd rest)))
      else (Inl (case lastError of Some err \<Rightarrow> err | None \<Rightarrow> ''Unknown fetch error''), []))"
  by pat_completeness auto
termination
  by (relation "measure (\<lambda>(respond, url, retries, baseDelay, attempt, lastError).
        Suc retries - attempt)") auto

declare fetch_loop.simps [simp del]

definition fetchWithRetry ::
  "(nat \<Rightarrow> string + 'a) \<Rightarrow> string \<Rightarrow> nat \<Rightarrow> nat \<Rightarrow> (string + 'a) \<times> event list" where
  "fetchWithRetry respond url retries baseDelay =
     fetch_loop respond url retries baseDelay 0 None"

subsection \<open>The copy in the limeplay and aceternity scripts\<close>

text \<open>
  Both scripts carry the same private \<open>fetchWithRetry(url, retries = RETRY_COUNT)\<close>, which
  sleeps \<open>RETRY_DELAY * (i + 1)\<close> after the failed attempt \<open>i\<close>. With a count \<open>retries\<close>
  the loop body runs at least once, so \<open>lastError\<close> is set when it is thrown; the
  message \<open>null\<close> stands for the unreachable throw of the initial \<open>null\<close>.
\<close>

definition RETRY_COUNT :: nat where
  "RETRY_COUNT = 3"

definition RETRY_DELAY :: nat where
  "RETRY_DELAY = 1000"

definition CONCURRENCY :: nat where
  "CONCURRENCY = 5"

function script_fetch_loop ::
  "(nat \<Rightarrow> string + 'a) \<Rightarrow> string \<Rightarrow> nat \<Rightarrow> nat \<Rightarrow> string option
     \<Rightarrow> (string + 'a) \<times> event list" where
  "script_fetch_loop respond url retries i lastError =
     (if i \<le> retries
      then (case respond i of
              Inr body \<Rightarrow> (Inr body, [Fetch url])
            | Inl err \<Rightarrow>
                (let backoff = (if i < retries then [Sleep (RETRY_DELAY * (i + 1))] else []);
                     rest = script_fetch_loop respond url retries (Suc i) (Some err)
                 in (fst rest, Fetch url # backoff @ snd rest)))
      else (Inl (case lastError of Some err \<Rightarrow> err | None \<Rightarrow> ''null''), []))"
  by pat_completeness auto
termination
  by (relation "measure (\<lambda>(respond, url, retries, i, lastError). Suc retries - i)") auto

declare script_fetch_loop.simps [simp del]

definition script_fetchWithRetry ::
  "(nat \<Rightarrow> string + 'a) \<Rightarrow> string \<Rightarrow> nat \<Rightarrow> (string + 'a) \<times> event list" where
  "script_fetchWithRetry respond url retries = script_fetch_loop respond url retries 0 None"

section \<open>Configuration, index entries and results (shared types)\<close>

text \<open>
  The shared type definitions (in \<open>src\<close> the second document of \<open>shared/utils.ts\<close>).
  \<open>RegistryConfig\<close> with its parts. The registry's \<open>name\<close> and \<open>description\<close> are the fields
  \<open>registryName\<close> and \<open>registryDescription\<close>, its \<open>sync\<close> and \<open>output\<close> parts are
  \<open>syncConfig\<close> and \<open>outputConfig\<close>, and the \<open>include\<close> list is \<open>includeList\<close>: the
  plain names are an entry's fields, the function \<open>sync\<close>, or reserved words.
\<close>

record RegistrySource =
  baseUrl :: string
  indexUrl :: string

record SyncConfig =
  retryCount :: nat
  retryDelay :: nat
  concurrency :: nat
  exclude :: "string list"
  includeList :: "string list"

record OutputConfig =
  preserveContent :: bool
  generateIndex :: bool

record RegistryMeta =
  homepage :: string
  repository :: "string option"
  lastSync :: "string option"

record RegistryConfig =
  registryName :: string
  displayName :: string
  registryDescription :: string
  source :: RegistrySource
  syncConfig :: SyncConfig
  outputConfig :: OutputConfig
  meta :: RegistryMeta

text \<open>\<open>RegistryIndexItem\<close>: an entry of the upstream index; \<open>itemType\<close> is its \<open>type\<close>.\<close>

record IndexEntry =
  name :: string
  itemType :: string
  title :: "string option"
  description :: "string option"
  dependencies :: "string list option"
  registryDependencies :: "string list option"

text \<open>
  \<open>SyncResult\<close> and \<open>SyncStats\<close>. A \<open>FailedItem\<close> \<open>{name, error}\<close> is a pair. The counters
  \<open>failed\<close> and \<open>skipped\<close> of the stats are \<open>failedCount\<close> and \<open>skippedCount\<close>; the
  wall-clock \<open>duration\<close> is left out.
\<close>

record SyncStats =
  total :: nat
  synced :: nat
  failedCount :: nat
  skippedCount :: nat

record SyncResult =
  success :: "string list"
  failed :: "(string \<times> string) list"
  skipped :: "string list"
  stats :: SyncStats

text \<open>
  Paths, with the POSIX functions of \<open>node:path\<close>. \<open>normalize\<close> splits a path at its
  slashes, drops the empty segments and the segments \<open>.\<close>, and lets a segment \<open>..\<close> remove
  the segment before it; at the start of a relative path \<open>..\<close> stays, at the root of an
  absolute one it is dropped. A trailing slash is kept.
\<close>

fun split_path :: "string \<Rightarrow> string list" where
  "split_path [] = [[]]"
| "split_path (c # cs) =
     (if c = CHR ''/'' then [] # split_path cs
      else (case split_path cs of
              [] \<Rightarrow> [[c]]
            | seg # segs \<Rightarrow> (c # seg) # segs))"

text \<open>\<open>normalizeString\<close>: \<open>res\<close> holds the segments kept so far, the last one first.\<close>

fun normalizeString :: "bool \<Rightarrow> string list \<Rightarrow> string list \<Rightarrow> string list" where
  "normalizeString allowAboveRoot res [] = rev res"
| "normalizeString allowAboveRoot res (seg # segs) =
     (if seg = [] \<or> seg = ''.'' then normalizeString allowAboveRoot res segs
      else if seg = ''..''
      then (if res \<noteq> [] \<and> hd res \<noteq> ''..''
            then normalizeString allowAboveRoot (tl res) segs
            else if allowAboveRoot then normalizeString allowAboveRoot (''..'' # res) segs
            else normalizeString allowAboveRoot res segs)
      else normalizeString allowAboveRoot (seg # res) segs)"

definition normalize_path :: "string \<Rightarrow> string" where
  "normalize_path path =
     (if path = [] then ''.''
      else
        (let isAbsolute = (hd path = CHR ''/'');
             trailingSeparator = (last path = CHR ''/'');
             body = join_with ''/'' (normalizeString (if isAbsolute then False else True) []
                                       (split_path path))
         in if body = []
            then (if isAbsolute then ''/'' else if trailingSeparator then ''./'' else ''.'')
            else (if isAbsolute then ''/'' else []) @ body
                 @ (if trailingSeparator then ''/'' else [])))"

text \<open>\<open>join(a, b)\<close>: the arguments that are not empty, joined by a slash and normalised.\<close>

definition join :: "string \<Rightarrow> string \<Rightarrow> string" where
  "join dir file =
     normalize_path (if dir = [] then file else if file = [] then dir else dir @ ''/'' @ file)"

text \<open>
  \<open>dirname(path)\<close>: the path up to the last slash that is followed by a segment, trailing
  slashes apart; \<open>.\<close> or \<open>/\<close> when there is no such slash.
\<close>

definition dirname :: "string \<Rightarrow> string" where
  "dirname path =
     (if path = [] then ''.''
      else
        (let front = dropWhile (\<lambda>c. c \<noteq> CHR ''/'')
                        (dropWhile (\<lambda>c. c = CHR ''/'') (rev (tl path)))
         in if front = [] then (if hd path = CHR ''/'' then ''/'' else ''.'')
            else if hd path = CHR ''/'' \<and> length front = 1 then ''//''
            else hd path # rev (tl front)))"

text \<open>
  \<open>import.meta.dir\<close> is the directory of the running script,
  \<open><checkout>/registries/<registry>/scripts\<close>: here for a checkout at \<open>/repo\<close> and the
  registry directory \<open>demo\<close>. \<open>OUTPUT_DIR\<close> is \<open>join(import.meta.dir, '..', 'output')\<close>, the
  directory \<open>output\<close> beside it.
\<close>

definition import_meta_dir :: string where
  "import_meta_dir = ''/repo/registries/demo/scripts''"

definition OUTPUT_DIR :: string where
  "OUTPUT_DIR = join (join import_meta_dir ''..'') ''output''"

text \<open>
  A property whose value is \<open>undefined\<close> is left out by \<open>JSON.stringify\<close>: the object
  that is written holds the properties that are present.
\<close>

fun present :: "(string \<times> json option) list \<Rightarrow> (string \<times> json) list" where
  "present [] = []"
| "present ((k, None) # kvs) = present kvs"
| "present ((k, Some v) # kvs) = (k, v) # present kvs"

definition REGISTRY_SCHEMA :: string where
  "REGISTRY_SCHEMA = ''https://ui.shadcn.com/schema/registry.json''"

section \<open>The template sync script\<close>

text \<open>
  The script every registry created from the template carries
  (\<open>registries/<name>/scripts/sync.ts\<close>: in \<open>src\<close> the second document of
  \<open>registries/ai-elements/config.ts\<close>, and the text \<open>generateSyncContent\<close> of
  \<open>scripts/init-registry.ts\<close> emits). It calls the shared \<open>fetchWithRetry\<close> without
  options, so with the default retry count and delay.
\<close>

record SyncOptions =
  only :: "string list"
  dryRun :: bool

definition fetchRegistryIndex ::
  "IndexEntry list responses \<Rightarrow> RegistryConfig
     \<Rightarrow> (string + IndexEntry list) \<times> event list" where
  "fetchRegistryIndex index_net config =
     fetchWithRetry (index_net (indexUrl (source config))) (indexUrl (source config))
       DEFAULT_retryCount DEFAULT_retryDelay"

definition component_url :: "RegistryConfig \<Rightarrow> string \<Rightarrow> string" where
  "component_url config nm = baseUrl (source config) @ ''/'' @ nm @ ''.json''"

definition fetchComponentDetail ::
  "json responses \<Rightarrow> RegistryConfig \<Rightarrow> string \<Rightarrow> (string + json) \<times> event list" where
  "fetchComponentDetail detail_net config nm =
     fetchWithRetry (detail_net (component_url config nm)) (component_url config nm)
       DEFAULT_retryCount DEFAULT_retryDelay"

definition transformItem :: "json \<Rightarrow> json" where
  "transformItem item = item"

text \<open>
  Step 2 of \<open>sync\<close>: the three filters, each applied when its list is not empty.
\<close>

definition filter_items :: "SyncOptions \<Rightarrow> RegistryConfig \<Rightarrow> IndexEntry list \<Rightarrow> IndexEntry list" where
  "filter_items opts config items =
     (let filtered1 = (if only opts \<noteq> []
                       then filter (\<lambda>i. name i \<in> set (only opts)) items else items);
          filtered2 = (if includeList (syncConfig config) \<noteq> []
                       then filter (\<lambda>i. name i \<in> set (includeList (syncConfig config))) filtered1
                       else filtered1)
      in if exclude (syncConfig config) \<noteq> []
         then filter (\<lambda>i. name i \<notin> set (exclude (syncConfig config))) filtered2
         else filtered2)"

text \<open>
  The \<open>try\<close> block of the loop for one entry, outside dry-run: fetch, transform,
  validate, and write only after the validation. \<open>Inl msg\<close> is the message the
  \<open>catch\<close> records: a fetch error, an exception inside the validator, or
  \<open>validation.error\<close>.
\<close>

definition sync_item ::
  "json responses \<Rightarrow> RegistryConfig \<Rightarrow> IndexEntry \<Rightarrow> (string + unit) \<times> event list" where
  "sync_item detail_net config item =
     (case fetchComponentDetail detail_net config (name item) of
        (Inl err, tr) \<Rightarrow> (Inl err, tr)
      | (Inr detail, tr) \<Rightarrow>
          (case validateRegistryItem (transformItem detail) of
             Inl exn \<Rightarrow> (Inl exn, tr)
           | Inr validation \<Rightarrow>
               (if valid validation
                then (Inr (),
                      tr @ [Mkdir (dirname (join OUTPUT_DIR (name item @ ''.json''))),
                            Write (join OUTPUT_DIR (name item @ ''.json''))
                              (transformItem detail)])
                else (Inl (case error validation of Some msg \<Rightarrow> msg | None \<Rightarrow> []), tr))))"

text \<open>
  The loop \<open>for (const item of filtered)\<close>: the names pushed to \<open>result.success\<close>, the
  pairs pushed to \<open>result.failed\<close>, and the trace, each in the order of the entries.
\<close>

fun sync_items ::
  "json responses \<Rightarrow> RegistryConfig \<Rightarrow> bool \<Rightarrow> IndexEntry list
     \<Rightarrow> string list \<times> (string \<times> string) list \<times> event list" where
  "sync_items detail_net config dry [] = ([], [], [])"
| "sync_items detail_net config dry (item # rest) =
     (case sync_items detail_net config dry rest of
        (succ, fails, tr) \<Rightarrow>
          (if dry then (name item # succ, fails, tr)
           else (case sync_item detail_net config item of
                   (Inr u, evs) \<Rightarrow> (name item # succ, fails, evs @ tr)
                 | (Inl msg, evs) \<Rightarrow> (succ, (name item, msg) # fails, evs @ tr))))"

text \<open>The summary of one entry in the aggregate index.\<close>

definition json_strings :: "string list \<Rightarrow> json" where
  "json_strings xs = JArr (map JStr xs)"

definition entry_summary :: "IndexEntry \<Rightarrow> json" where
  "entry_summary item =
     JObj (present
       [(''name'', Some (JStr (name item))),
        (''type'', Some (JStr (itemType item))),
        (''description'', map_option JStr (description item)),
        (''dependencies'', map_option json_strings (dependencies item)),
        (''registryDependencies'', map_option json_strings (registryDependencies item))])"

text \<open>The aggregate index of step 5; \<open>now\<close> is the timestamp \<open>getUtcTimestamp()\<close> returns.\<close>

definition aggregate_index ::
  "RegistryConfig \<Rightarrow> string \<Rightarrow> string list \<Rightarrow> IndexEntry list \<Rightarrow> json" where
  "aggregate_index config now succ filtered =
     JObj [(''$schema'', JStr REGISTRY_SCHEMA),
           (''name'', JStr (registryName config)),
           (''homepage'', JStr (homepage (meta config))),
           (''syncedAt'', JStr now),
           (''itemCount'', JNum (show_nat (length succ))),
           (''items'', JArr (map entry_summary (filter (\<lambda>c. name c \<in> set succ) filtered)))]"

definition generate_index ::
  "RegistryConfig \<Rightarrow> string \<Rightarrow> SyncOptions \<Rightarrow> string list \<Rightarrow> IndexEntry list \<Rightarrow> event list" where
  "generate_index config now opts succ filtered =
     (if \<not> dryRun opts \<and> generateIndex (outputConfig config)
      then [Write (join OUTPUT_DIR ''index.json'') (aggregate_index config now succ filtered),
            Write (join OUTPUT_DIR ''registry.json'') (aggregate_index config now succ filtered)]
      else [])"

text \<open>
  \<open>sync(options)\<close>. \<open>Inl msg\<close>: the index fetch threw and the promise rejects with that
  error; \<open>Inr result\<close>: the returned \<open>SyncResult\<close>.
\<close>

definition sync ::
  "IndexEntry list responses \<Rightarrow> json responses \<Rightarrow> RegistryConfig \<Rightarrow> string \<Rightarrow> SyncOptions
     \<Rightarrow> (string + SyncResult) \<times> event list" where
  "sync index_net detail_net config now opts =
     (case fetchRegistryIndex index_net config of
        (Inl err, tr) \<Rightarrow> (Inl err, tr)
      | (Inr items, tr) \<Rightarrow>
          (let filtered = filter_items opts config items in
           case sync_items detail_net config (dryRun opts) filtered of
             (succ, fails, item_tr) \<Rightarrow>
               (Inr \<lparr>success = succ, failed = fails, skipped = [],
                     stats = \<lparr>total = length items, synced = length succ,
                              failedCount = length fails, skippedCount = 0\<rparr>\<rparr>,
                tr @ (if dryRun opts then [] else [Mkdir OUTPUT_DIR]) @ item_tr
                  @ generate_index config now opts succ filtered)))"

section \<open>The limeplay and aceternity sync scripts\<close>

text \<open>
  The two registries have scripts of their own (\<open>registries/limeplay/scripts/sync.ts\<close>
  and \<open>registries/aceternity/scripts/sync.ts\<close>), which share most of their text: the
  private \<open>fetchWithRetry\<close> above, \<open>ensureDir\<close>, \<open>fetchComponent\<close> (which differ in logging
  only), the worker loop of \<open>downloadComponents\<close>, \<open>saveComponent\<close>, \<open>saveRegistryIndex\<close>
  and \<open>main\<close>. Neither imports the validator.
\<close>

subsection \<open>\<open>deduplicateItems\<close> (limeplay)\<close>

text \<open>The loop over \<open>items\<close> with the set \<open>seen\<close>; the result is built in order.\<close>

fun dedup_loop :: "string set \<Rightarrow> IndexEntry list \<Rightarrow> IndexEntry list" where
  "dedup_loop seen [] = []"
| "dedup_loop seen (item # rest) =
     (if name item \<in> seen then dedup_loop seen rest
      else item # dedup_loop (insert (name item) seen) rest)"

definition deduplicateItems :: "IndexEntry list \<Rightarrow> IndexEntry list" where
  "deduplicateItems items = dedup_loop {} items"

definition limeplay_fetchRegistryIndex ::
  "IndexEntry list responses \<Rightarrow> RegistryConfig
     \<Rightarrow> (string + IndexEntry list) \<times> event list" where
  "limeplay_fetchRegistryIndex index_net config =
     (case script_fetchWithRetry (index_net (indexUrl (source config)))
             (indexUrl (source config)) RETRY_COUNT of
        (Inl err, tr) \<Rightarrow> (Inl err, tr)
      | (Inr items, tr) \<Rightarrow> (Inr (deduplicateItems items), tr))"

definition aceternity_fetchRegistryIndex ::
  "IndexEntry list responses \<Rightarrow> RegistryConfig
     \<Rightarrow> (string + IndexEntry list) \<times> event list" where
  "aceternity_fetchRegistryIndex index_net config =
     script_fetchWithRetry (index_net (indexUrl (source config)))
       (indexUrl (source config)) RETRY_COUNT"

subsection \<open>\<open>fetchComponent\<close> and the worker loop\<close>

text \<open>
  \<open>fetchComponent(name)\<close>: the fetched value, or \<open>null\<close> (here \<open>None\<close>) when the retrying
  fetch throws; the error is dropped.
\<close>

definition fetchComponent ::
  "json responses \<Rightarrow> RegistryConfig \<Rightarrow> string \<Rightarrow> json option \<times> event list" where
  "fetchComponent detail_net config nm =
     (case script_fetchWithRetry (detail_net (component_url config nm))
             (component_url config nm) RETRY_COUNT of
        (Inl err, tr) \<Rightarrow> (None, tr)
      | (Inr item, tr) \<Rightarrow> (Some item, tr))"

text \<open>
  The workers. \<open>Array.from\<close> starts \<open>min(CONCURRENCY, n)\<close> calls of \<open>processQueue\<close>; each
  runs until its first \<open>await\<close>, so the first entries of the queue are taken in order
  and their first requests are issued, one after the other. From then on the calls in
  flight advance as the responses and the timers arrive, which is the environment's
  choice: \<open>sched\<close> lists these choices (an index into the calls in flight, taken modulo
  their number; 0 when the list is exhausted).

  A call in flight is the entry, the value \<open>fetchComponent\<close> will return for it, and the
  events of \<open>fetchComponent\<close> that have not happened yet. A request is in the trace when
  it is issued and a sleep when it completes; a sleep that completes is followed at
  once by the next request of its call. So a call advances by its events up to and
  including its next request; when none is left it returns, and its worker pushes the
  component to \<open>results\<close> when it is truthy and the entry's name to \<open>failed\<close> otherwise,
  takes the next entry from the queue and issues its first request, or ends when the
  queue is empty.
\<close>

fun pick :: "nat list \<Rightarrow> nat \<Rightarrow> nat" where
  "pick [] n = 0"
| "pick (c # cs) n = c mod n"

fun next_request :: "event list \<Rightarrow> event list \<times> event list" where
  "next_request [] = ([], [])"
| "next_request (e # es) =
     (if is_fetch e then ([e], es)
      else (case next_request es of (now, later) \<Rightarrow> (e # now, later)))"

type_synonym call = "IndexEntry \<times> json option \<times> event list"

type_synonym progress = "json list \<times> string list \<times> event list"

definition start_call ::
  "(string \<Rightarrow> json option \<times> event list) \<Rightarrow> IndexEntry \<Rightarrow> call \<times> event list" where
  "start_call fetchComp item =
     (case fetchComp (name item) of
        (component, evs) \<Rightarrow>
          (case next_request evs of (now, later) \<Rightarrow> ((item, component, later), now)))"

fun start_calls ::
  "(string \<Rightarrow> json option \<times> event list) \<Rightarrow> IndexEntry list \<Rightarrow> call list \<times> event list" where
  "start_calls fetchComp [] = ([], [])"
| "start_calls fetchComp (item # items) =
     (case start_call fetchComp item of
        (c, now) \<Rightarrow>
          (case start_calls fetchComp items of (cs, evs) \<Rightarrow> (c # cs, now @ evs)))"

definition logged :: "event list \<Rightarrow> progress \<Rightarrow> progress" where
  "logged now acc = (case acc of (results, failed_names, tr) \<Rightarrow> (results, failed_names, tr @ now))"

definition complete :: "IndexEntry \<Rightarrow> json option \<Rightarrow> progress \<Rightarrow> progress" where
  "complete item component acc =
     (case acc of (results, failed_names, tr) \<Rightarrow>
        (case component of
           None \<Rightarrow> (results, failed_names @ [name item], tr)
         | Some v \<Rightarrow>
             (if truthy v then (results @ [v], failed_names, tr)
              else (results, failed_names @ [name item], tr))))"

text \<open>One step of the call in flight at position \<open>w\<close>.\<close>

definition worker_step ::
  "(string \<Rightarrow> json option \<times> event list) \<Rightarrow> nat \<Rightarrow> call list \<Rightarrow> IndexEntry list \<Rightarrow> progress
     \<Rightarrow> call list \<times> IndexEntry list \<times> progress" where
  "worker_step fetchComp w inflight queue acc =
     (case inflight ! w of
        (item, component, pending) \<Rightarrow>
          (if pending \<noteq> []
           then (case next_request pending of
                   (now, later) \<Rightarrow>
                     (inflight[w := (item, component, later)], queue, logged now acc))
           else (case queue of
                   [] \<Rightarrow> (take w inflight @ drop (Suc w) inflight, [],
                          complete item component acc)
                 | nxt # rest \<Rightarrow>
                     (case start_call fetchComp nxt of
                        (c, now) \<Rightarrow>
                          (inflight[w := c], rest,
                           logged now (complete item component acc))))))"

function run_workers ::
  "(string \<Rightarrow> json option \<times> event list) \<Rightarrow> nat list \<Rightarrow> call list \<Rightarrow> IndexEntry list
     \<Rightarrow> progress \<Rightarrow> progress" where
  "run_workers fetchComp sched [] queue acc = acc"
| "run_workers fetchComp sched (x # inflight) queue acc =
     (case worker_step fetchComp (pick sched (Suc (length inflight))) (x # inflight) queue acc of
        (inflight', queue', acc') \<Rightarrow> run_workers fetchComp (tl sched) inflight' queue' acc')"
  by pat_completeness auto

termination
proof (relation "measure (\<lambda>(fetchComp, sched, inflight, queue, acc).
         sum_list (map (\<lambda>(item, component, pending). Suc (length pending)) inflight)
         + sum_list (map (\<lambda>item. Suc (length (snd (fetchComp (name item))))) queue))",
       goal_cases)
  case 1
  show ?case by simp
next
  case (2 fetchComp sched x inflight queue acc inflight' pair rest acc')
  let ?cs = "x # inflight"
  let ?w = "pick sched (Suc (length inflight))"
  let ?wt = "\<lambda>(item :: IndexEntry, component :: json option, pending :: event list).
               Suc (length pending)"
  let ?qt = "\<lambda>item. Suc (length (snd (fetchComp (name item))))"
  have w: "?w < length ?cs" by (cases sched) auto
  have shrink: "\<And>es now later. next_request es = (now, later) \<Longrightarrow> length later \<le> length es"
  proof -
    fix es :: "event list" and now later
    show "next_request es = (now, later) \<Longrightarrow> length later \<le> length es"
      by (induction es arbitrary: now later) (auto split: if_splits prod.splits)
  qed
  have shrink1: "\<And>es now later. next_request es = (now, later) \<Longrightarrow> es \<noteq> []
                   \<Longrightarrow> length later < length es"
  proof -
    fix es :: "event list" and now later
    assume "next_request es = (now, later)" "es \<noteq> []"
    then show "length later < length es"
      by (cases es) (auto split: if_splits prod.splits dest: shrink)
  qed
  have split: "sum_list (map ?wt ?cs)
                 = sum_list (map ?wt (take ?w ?cs)) + ?wt (?cs ! ?w)
                   + sum_list (map ?wt (drop (Suc ?w) ?cs))"
    using w by (subst id_take_nth_drop [of ?w ?cs])
               (simp_all del: take_Suc_Cons drop_Suc_Cons)
  have upd: "\<And>c. sum_list (map ?wt (?cs[?w := c]))
                 = sum_list (map ?wt (take ?w ?cs)) + ?wt c
                   + sum_list (map ?wt (drop (Suc ?w) ?cs))"
    using w by (simp only: upd_conv_take_nth_drop map_append sum_list.append list.map
                  sum_list.Cons add.assoc)
  obtain item component pending where call: "?cs ! ?w = (item, component, pending)"
    by (cases "?cs ! ?w") auto
  have step: "worker_step fetchComp ?w ?cs queue acc = (inflight', rest, acc')"
    using 2 by simp
  have "sum_list (map ?wt inflight') + sum_list (map ?qt rest)
          < sum_list (map ?wt ?cs) + sum_list (map ?qt queue)"
  proof (cases "pending = []")
    case False
    obtain now later where nr: "next_request pending = (now, later)"
      by (cases "next_request pending") auto
    have "inflight' = ?cs[?w := (item, component, later)]" and "rest = queue"
      using step call False nr
      by (simp_all add: worker_step_def del: list_update.simps)
    moreover have "length later < length pending" using shrink1 [OF nr False] .
    ultimately show ?thesis
      using upd [of "(item, component, later)"] split call by simp
  next
    case True
    show ?thesis
    proof (cases queue)
      case Nil
      have "inflight' = take ?w ?cs @ drop (Suc ?w) ?cs" and "rest = []"
        using step call True Nil by (simp_all add: worker_step_def)
      then show ?thesis using split call Nil by simp
    next
      case (Cons nxt q)
      obtain now later where nr: "next_request (snd (fetchComp (name nxt))) = (now, later)"
        by (cases "next_request (snd (fetchComp (name nxt)))") auto
      have "inflight' = ?cs[?w := (nxt, fst (fetchComp (name nxt)), later)]" and "rest = q"
        using step call True Cons nr
        by (simp_all add: worker_step_def start_call_def split: prod.splits
              del: list_update.simps)
      moreover have "length later \<le> length (snd (fetchComp (name nxt)))"
        using shrink [OF nr] .
      ultimately show ?thesis
        using upd [of "(nxt, fst (fetchComp (name nxt)), later)"] split call Cons True
        by simp
    qed
  qed
  then show ?case by simp
qed

declare run_workers.simps [simp del]

text \<open>The filters of the two scripts, the first statements of \<open>downloadComponents\<close>.\<close>

definition limeplay_filter ::
  "RegistryConfig \<Rightarrow> string list option \<Rightarrow> IndexEntry list \<Rightarrow> IndexEntry list" where
  "limeplay_filter config flt items =
     (let filteredItems = (case flt of
                             Some names \<Rightarrow> filter (\<lambda>item. name item \<in> set names) items
                           | None \<Rightarrow> items)
      in if exclude (syncConfig config) \<noteq> []
         then filter (\<lambda>item. name item \<notin> set (exclude (syncConfig config))) filteredItems
         else filteredItems)"

definition aceternity_filter :: "string list option \<Rightarrow> IndexEntry list \<Rightarrow> IndexEntry list" where
  "aceternity_filter flt items =
     (case flt of
        Some names \<Rightarrow> filter (\<lambda>item. name item \<in> set names) items
      | None \<Rightarrow> items)"

text \<open>
  \<open>downloadComponents\<close>: the components fetched, the names that failed and the trace.
  Only the components are returned to \<open>main\<close>; limeplay prints the failed names.
\<close>

definition start_workers ::
  "(string \<Rightarrow> json option \<times> event list) \<Rightarrow> nat list \<Rightarrow> IndexEntry list \<Rightarrow> progress" where
  "start_workers fetchComp sched filteredItems =
     (case start_calls fetchComp
             (take (min CONCURRENCY (length filteredItems)) filteredItems) of
        (calls, evs) \<Rightarrow>
          run_workers fetchComp sched calls
            (drop (min CONCURRENCY (length filteredItems)) filteredItems)
            ([], [], evs))"

definition limeplay_downloadComponents ::
  "json responses \<Rightarrow> RegistryConfig \<Rightarrow> nat list \<Rightarrow> IndexEntry list \<Rightarrow> string list option
     \<Rightarrow> json list \<times> string list \<times> event list" where
  "limeplay_downloadComponents detail_net config sched items flt =
     start_workers (fetchComponent detail_net config) sched (limeplay_filter config flt items)"

text \<open>aceternity keeps no list of failed names.\<close>

definition aceternity_downloadComponents ::
  "json responses \<Rightarrow> RegistryConfig \<Rightarrow> nat list \<Rightarrow> IndexEntry list \<Rightarrow> string list option
     \<Rightarrow> json list \<times> event list" where
  "aceternity_downloadComponents detail_net config sched items flt =
     (case start_workers (fetchComponent detail_net config) sched (aceternity_filter flt items) of
        (results, failed_names, tr) \<Rightarrow> (results, tr))"

subsection \<open>Saving\<close>

text \<open>
  \<open>saveComponent(item, dryRun)\<close>: the file is named after the fetched component's own
  \<open>name\<close> property, whatever it holds. \<open>item\<close> is a truthy value, so reading its property
  does not throw; forming the file name is the first statement, before \<open>dryRun\<close> is
  looked at, and \<open>Inl\<close> is the TypeError of a name that has no string conversion.
\<close>

definition has_file_name :: "json \<Rightarrow> bool" where
  "has_file_name item = (js_string_opt (js_prop item ''name'') \<noteq> None)"

definition saveComponent :: "json \<Rightarrow> bool \<Rightarrow> string + event list" where
  "saveComponent item dry =
     (case js_string_opt (js_prop item ''name'') of
        None \<Rightarrow> Inl no_default_value
      | Some nm \<Rightarrow>
          Inr (if dry then []
               else [Mkdir (dirname (join OUTPUT_DIR (nm @ ''.json''))),
                     Write (join OUTPUT_DIR (nm @ ''.json'')) item]))"

text \<open>
  The loop \<open>for (const component of components)\<close> of \<open>main\<close>: it ends at the first
  component whose \<open>saveComponent\<close> throws.
\<close>

fun save_components :: "json list \<Rightarrow> bool \<Rightarrow> (string + unit) \<times> event list" where
  "save_components [] dry = (Inr (), [])"
| "save_components (component # rest) dry =
     (case saveComponent component dry of
        Inl exn \<Rightarrow> (Inl exn, [])
      | Inr evs \<Rightarrow>
          (case save_components rest dry of (outcome, tr) \<Rightarrow> (outcome, evs @ tr)))"

definition component_summary :: "json \<Rightarrow> json" where
  "component_summary item =
     JObj (present
       [(''name'', js_prop item ''name''),
        (''type'', js_prop item ''type''),
        (''title'', js_prop item ''title''),
        (''author'', js_prop item ''author''),
        (''description'', js_prop item ''description''),
        (''categories'', js_prop item ''categories''),
        (''dependencies'', js_prop item ''dependencies''),
        (''registryDependencies'', js_prop item ''registryDependencies'')])"

definition script_index :: "RegistryConfig \<Rightarrow> string \<Rightarrow> json list \<Rightarrow> json" where
  "script_index config now items =
     JObj [(''$schema'', JStr REGISTRY_SCHEMA),
           (''name'', JStr (registryName config)),
           (''homepage'', JStr (homepage (meta config))),
           (''syncedAt'', JStr now),
           (''itemCount'', JNum (show_nat (length items))),
           (''items'', JArr (map component_summary items))]"

definition saveRegistryIndex :: "RegistryConfig \<Rightarrow> string \<Rightarrow> json list \<Rightarrow> bool \<Rightarrow> event list" where
  "saveRegistryIndex config now items dry =
     (if dry then []
      else [Mkdir (dirname (join OUTPUT_DIR ''index.json'')),
            Write (join OUTPUT_DIR ''index.json'') (script_index config now items),
            Write (join OUTPUT_DIR ''registry.json'') (script_index config now items)])"

subsection \<open>\<open>main\<close>\<close>

text \<open>
  The part of \<open>main\<close> after the download: nothing when no component was fetched,
  otherwise every component is saved and then the index. \<open>Inl\<close> is an exception on its
  way to the \<open>catch\<close> of \<open>main\<close>.
\<close>

definition save_all ::
  "RegistryConfig \<Rightarrow> string \<Rightarrow> json list \<Rightarrow> bool \<Rightarrow> (string + unit) \<times> event list" where
  "save_all config now components dry =
     (if components = [] then (Inr (), [])
      else (case save_components components dry of
              (Inl exn, tr) \<Rightarrow> (Inl exn, tr)
            | (Inr u, tr) \<Rightarrow> (Inr (), tr @ saveRegistryIndex config now components dry)))"

text \<open>
  \<open>main\<close> with the parsed arguments \<open>only\<close> and \<open>dryRun\<close>: the exit status of the process
  (1 when the index fetch or the saving throws, through the \<open>catch\<close>) and the trace.
\<close>

definition limeplay_main ::
  "IndexEntry list responses \<Rightarrow> json responses \<Rightarrow> RegistryConfig \<Rightarrow> string \<Rightarrow> nat list
     \<Rightarrow> string list option \<Rightarrow> bool \<Rightarrow> nat \<times> event list" where
  "limeplay_main index_net detail_net config now sched flt dry =
     (case limeplay_fetchRegistryIndex index_net config of
        (Inl err, tr) \<Rightarrow> (1, tr)
      | (Inr items, tr) \<Rightarrow>
          (case limeplay_downloadComponents detail_net config sched items flt of
             (components, failed_names, dl_tr) \<Rightarrow>
               (case save_all config now components dry of
                  (Inl exn, save_tr) \<Rightarrow> (1, tr @ dl_tr @ save_tr)
                | (Inr u, save_tr) \<Rightarrow> (0, tr @ dl_tr @ save_tr))))"

definition aceternity_main ::
  "IndexEntry list responses \<Rightarrow> json responses \<Rightarrow> RegistryConfig \<Rightarrow> string \<Rightarrow> nat list
     \<Rightarrow> string list option \<Rightarrow> bool \<Rightarrow> nat \<times> event list" where
  "aceternity_main index_net detail_net config now sched flt dry =
     (case aceternity_fetchRegistryIndex index_net config of
        (Inl err, tr) \<Rightarrow> (1, tr)
      | (Inr items, tr) \<Rightarrow>
          (case aceternity_downloadComponents detail_net config sched items flt of
             (components, dl_tr) \<Rightarrow>
               (case save_all config now components dry of
                  (Inl exn, save_tr) \<Rightarrow> (1, tr @ dl_tr @ save_tr)
                | (Inr u, save_tr) \<Rightarrow> (0, tr @ dl_tr @ save_tr))))"

section \<open>The multi-source runner (sync-all)\<close>

text \<open>
  \<open>main\<close> of \<open>scripts/sync-all.ts\<close>. For each registry it imports
  \<open>registries/<name>/scripts/sync.ts\<close> and then either calls the exported \<open>sync\<close> or
  spawns the script as a subprocess. What it can find there:

  \<^item> \<open>ImportThrows msg\<close>: the import throws.
  \<^item> \<open>ExportsSync run\<close>: a module that exports \<open>sync\<close> and starts nothing when it is
    imported, as the template script, whose entry point is guarded by
    \<open>import.meta.main\<close>. \<open>sync\<close> is called in-process with the dry-run flag; it rejects
    with a message or resolves.
  \<^item> \<open>Subprocess run\<close>: a module without that export that starts nothing when it is
    imported. It is run as a subprocess and gives an exit status.
  \<^item> \<open>TopLevelMain run\<close>: a module without that export whose last statement is the
    call \<open>main()\<close>, as the limeplay and aceternity scripts. The import evaluates the
    module and so starts a run of \<open>main\<close> inside the runner's process, which nothing
    awaits; it reads the runner's own \<open>--dry-run\<close> flag. The runner then spawns the script
    as a subprocess as well and awaits that.

  Each run comes with the trace of its effects.
\<close>

datatype 'e sync_script =
    ImportThrows string
  | ExportsSync "bool \<Rightarrow> (string + unit) \<times> 'e list"
  | Subprocess "bool \<Rightarrow> nat \<times> 'e list"
  | TopLevelMain "bool \<Rightarrow> nat \<times> 'e list"

text \<open>
  The body of the \<open>try\<close> for one registry, as far as it is awaited: the error message
  the \<open>catch\<close> would record, if any, and the trace.
\<close>

fun run_script :: "bool \<Rightarrow> 'e sync_script \<Rightarrow> string option \<times> 'e list" where
  "run_script dry (ImportThrows msg) = (Some msg, [])"
| "run_script dry (ExportsSync run) =
     (case run dry of (Inl msg, tr) \<Rightarrow> (Some msg, tr) | (Inr u, tr) \<Rightarrow> (None, tr))"
| "run_script dry (Subprocess run) =
     (case run dry of (exitCode, tr) \<Rightarrow>
        (if exitCode = 0 then (None, tr)
         else (Some (''Exit code: '' @ show_nat exitCode), tr)))"
| "run_script dry (TopLevelMain run) =
     (case run dry of (exitCode, tr) \<Rightarrow>
        (if exitCode = 0 then (None, tr)
         else (Some (''Exit code: '' @ show_nat exitCode), tr)))"

text \<open>
  The run that the import starts and nothing awaits: its exit status, were it a process
  of its own, and the trace it has when it runs to its end. It is concurrent with
  everything the runner does from the import on. When it fails, with a status other
  than 0, the \<open>catch\<close> of the script's \<open>main\<close> calls \<open>process.exit(1)\<close>, which ends the
  runner's process.
\<close>

fun unawaited_run :: "bool \<Rightarrow> 'e sync_script \<Rightarrow> (nat \<times> 'e list) option" where
  "unawaited_run dry (TopLevelMain run) = Some (run dry)"
| "unawaited_run dry (ImportThrows msg) = None"
| "unawaited_run dry (ExportsSync run) = None"
| "unawaited_run dry (Subprocess run) = None"

text \<open>
  An entry of \<open>results\<close>: \<open>{name, success, error?}\<close>.
\<close>

record RunResult =
  registry :: string
  succeeded :: bool
  errorMessage :: "string option"

text \<open>
  When a failing un-awaited run reaches its \<open>process.exit(1)\<close> is the environment's
  choice: \<open>patience name\<close> is the number of results the runner still records, that of
  \<open>name\<close> included, before the un-awaited run of \<open>name\<close> ends the process. \<open>fuse\<close> is the
  number of results left until the earliest such exit that is pending, \<open>None\<close> when none
  is.
\<close>

definition sooner :: "nat option \<Rightarrow> nat \<Rightarrow> nat option" where
  "sooner fuse n = (case fuse of None \<Rightarrow> Some n | Some m \<Rightarrow> Some (min m n))"

definition light_fuse ::
  "bool \<Rightarrow> 'e sync_script \<Rightarrow> nat \<Rightarrow> nat option \<Rightarrow> nat option" where
  "light_fuse dry script n fuse =
     (case unawaited_run dry script of
        None \<Rightarrow> fuse
      | Some (exitCode, tr) \<Rightarrow> (if exitCode = 0 then fuse else sooner fuse n))"

definition started_by_import :: "bool \<Rightarrow> string \<Rightarrow> 'e sync_script \<Rightarrow> (string \<times> 'e list) list" where
  "started_by_import dry nm script =
     (case unawaited_run dry script of
        None \<Rightarrow> []
      | Some (exitCode, tr) \<Rightarrow> [(nm, tr)])"

text \<open>
  The loop \<open>for (const name of registryNames)\<close>. The result is: whether the loop ran to
  its end (\<open>False\<close> when an un-awaited run ended the process first); the \<open>results\<close>
  recorded; the trace of the awaited runs that completed, one registry after the
  other, each event tagged with its registry; and the un-awaited runs that were
  started, each with its registry.
\<close>

fun sync_each ::
  "bool \<Rightarrow> (string \<Rightarrow> 'e sync_script) \<Rightarrow> (string \<Rightarrow> nat) \<Rightarrow> nat option \<Rightarrow> string list
     \<Rightarrow> bool \<times> RunResult list \<times> (string \<times> 'e) list \<times> (string \<times> 'e list) list" where
  "sync_each dry scripts patience fuse [] = (True, [], [], [])"
| "sync_each dry scripts patience fuse (nm # rest) =
     (if light_fuse dry (scripts nm) (patience nm) fuse = Some 0
      then (False, [], [], started_by_import dry nm (scripts nm))
      else
        (case run_script dry (scripts nm) of
           (err, tr) \<Rightarrow>
             (case sync_each dry scripts patience
                     (map_option (\<lambda>n. n - 1)
                        (light_fuse dry (scripts nm) (patience nm) fuse)) rest of
                (finished, results, trace, background) \<Rightarrow>
                  (finished,
                   \<lparr>registry = nm, succeeded = (err = None), errorMessage = err\<rparr> # results,
                   map (Pair nm) tr @ trace,
                   started_by_import dry nm (scripts nm) @ background))))"

text \<open>
  \<open>main\<close> of sync-all: the exit status, the results, the trace of the awaited runs and
  the un-awaited runs. \<open>registryNames\<close> is what \<open>getRegistryNames\<close> gives: \<open>Inl msg\<close> when it
  throws (the outer \<open>catch\<close> exits with 1).
\<close>

definition sync_all_main ::
  "string + string list \<Rightarrow> (string \<Rightarrow> 'e sync_script) \<Rightarrow> (string \<Rightarrow> nat) \<Rightarrow> bool
     \<Rightarrow> nat \<times> RunResult list \<times> (string \<times> 'e) list \<times> (string \<times> 'e list) list" where
  "sync_all_main registryNames scripts patience isDryRun =
     (case registryNames of
        Inl msg \<Rightarrow> (1, [], [], [])
      | Inr names \<Rightarrow>
          (if names = [] then (1, [], [], [])
           else (case sync_each isDryRun scripts patience None names of
                   (finished, results, trace, background) \<Rightarrow>
                     (if finished
                      then (if 0 < length (filter (\<lambda>r. \<not> succeeded r) results)
                            then (1, results, trace, background)
                            else (0, results, trace, background))
                      else (1, results, trace, background)))))"

section \<open>Concrete inputs\<close>

text \<open>
  Inputs for the concrete runs below: an index entry with a given name, a valid and an
  invalid item detail, and a configuration with given include and exclude lists and
  index toggle.
\<close>

definition entry_named :: "string \<Rightarrow> IndexEntry" where
  "entry_named nm =
     \<lparr>name = nm, itemType = ''registry:ui'', title = None, description = None,
      dependencies = None, registryDependencies = None\<rparr>"

definition item_named :: "string \<Rightarrow> json" where
  "item_named nm = JObj [(''name'', JStr nm), (''type'', JStr ''registry:ui'')]"

definition bogus_named :: "string \<Rightarrow> json" where
  "bogus_named nm = JObj [(''name'', JStr nm), (''type'', JStr ''bogus'')]"

definition config_with :: "string list \<Rightarrow> string list \<Rightarrow> bool \<Rightarrow> RegistryConfig" where
  "config_with incl excl gen =
     \<lparr>registryName = ''demo'', displayName = ''Demo'', registryDescription = ''demo registry'',
      source = \<lparr>baseUrl = ''https://r.test'', indexUrl = ''https://r.test/registry.json''\<rparr>,
      syncConfig = \<lparr>retryCount = 3, retryDelay = 1000, concurrency = 5,
                    exclude = excl, includeList = incl\<rparr>,
      outputConfig = \<lparr>preserveContent = True, generateIndex = gen\<rparr>,
      meta = \<lparr>homepage = ''https://r.test/home'', repository = None, lastSync = None\<rparr>\<rparr>"

text \<open>
  A remote side for the concrete runs: the index endpoint answers every attempt with the
  given entries; a detail URL listed in the table answers every attempt with its
  value, and every other URL fails every attempt with the given message, a 404 for
  \<open>serve\<close>.
\<close>

definition serve_index :: "IndexEntry list \<Rightarrow> IndexEntry list responses" where
  "serve_index items = (\<lambda>url k. Inr items)"

definition serve_or :: "string \<Rightarrow> (string \<times> json) list \<Rightarrow> json responses" where
  "serve_or msg table =
     (\<lambda>url k. case map_of table url of
                 Some v \<Rightarrow> Inr v
               | None \<Rightarrow> Inl msg)"

definition serve :: "(string \<times> json) list \<Rightarrow> json responses" where
  "serve table = serve_or ''HTTP 404: Not Found'' table"

text \<open>
  Registries for the runner. \<open>alpha\<close> and \<open>beta\<close> carry the template script and export
  \<open>sync\<close>: \<open>alpha\<close> against an index endpoint that is down, \<open>beta\<close> against a working
  upstream. \<open>delta\<close> and \<open>epsilon\<close> carry limeplay's script, which calls \<open>main()\<close> at module
  level: \<open>delta\<close> against an index endpoint that is down, \<open>epsilon\<close> against a working
  upstream. Any other name has no script to import.
\<close>

definition template_script ::
  "IndexEntry list responses \<Rightarrow> json responses \<Rightarrow> event sync_script" where
  "template_script index_net detail_net =
     ExportsSync (\<lambda>dry.
       case sync index_net detail_net (config_with [] [] True) ''now''
              \<lparr>only = [], dryRun = dry\<rparr> of
         (Inl msg, tr) \<Rightarrow> (Inl msg, tr)
       | (Inr r, tr) \<Rightarrow> (Inr (), tr))"

definition limeplay_script ::
  "IndexEntry list responses \<Rightarrow> json responses \<Rightarrow> event sync_script" where
  "limeplay_script index_net detail_net =
     TopLevelMain (\<lambda>dry.
       limeplay_main index_net detail_net (config_with [] [] True) ''now'' [] None dry)"

definition demo_scripts :: "string \<Rightarrow> event sync_script" where
  "demo_scripts nm =
     (if nm = ''alpha''
      then template_script (\<lambda>url k. Inl ''HTTP 503: Service Unavailable'') (serve [])
      else if nm = ''beta''
      then template_script (serve_index [entry_named ''a''])
             (serve [(''https://r.test/a.json'', item_named ''a'')])
      else if nm = ''delta''
      then limeplay_script (\<lambda>url k. Inl ''HTTP 503: Service Unavailable'') (serve [])
      else if nm = ''epsilon''
      then limeplay_script (serve_index [entry_named ''a''])
             (serve [(''https://r.test/a.json'', item_named ''a'')])
      else ImportThrows ''Cannot find module'')"

definition empty_fs :: filesystem where
  "empty_fs = \<lparr>files = (\<lambda>path. None), dirs = {}\<rparr>"

section \<open>The validator on the boundary inputs\<close>

text \<open>
  Claim C6. \<open>validateRegistryItem\<close> accepts \<open>{name: "x", type: "registry:component"}\<close> with
  the missing-\<open>$schema\<close> warning as its only warning; it rejects
  \<open>{name: "x", type: "bogus"}\<close> with the error \<open>Invalid type: bogus\<close>; and it rejects
  \<open>{name: 1, type: "registry:ui"}\<close> with the error \<open>Missing or invalid name field\<close>.
\<close>

theorem validateRegistryItem_boundary:
  "validateRegistryItem (JObj [(''name'', JStr ''x''), (''type'', JStr ''registry:component'')])
     = Inr \<lparr>valid = True, error = None, warnings = Some [''Missing $schema field'']\<rparr>
   \<and> validateRegistryItem (JObj [(''name'', JStr ''x''), (''type'', JStr ''bogus'')])
     = Inr \<lparr>valid = False, error = Some ''Invalid type: bogus'', warnings = None\<rparr>
   \<and> validateRegistryItem (JObj [(''name'', JNum ''1''), (''type'', JStr ''registry:ui'')])
     = Inr \<lparr>valid = False, error = Some ''Missing or invalid name field'', warnings = None\<rparr>"
  by (simp add: validateRegistryItem_def VALID_ITEM_TYPES_def check_string_array_def
      schema_warnings_def invalid_def)

text \<open>
  Claim C10. The validator is not total: on an object whose \<open>files\<close> array holds
  \<open>null\<close> the read of \<open>file.path\<close> throws a TypeError, so no \<open>ValidationResult\<close> is
  returned. A non-object element that is not null (here the number 5) is rejected with
  the positional error, as the claim says.
\<close>

theorem validateRegistryItem_throws_on_null_file:
  "validateRegistryItem
     (JObj [(''name'', JStr ''x''), (''type'', JStr ''registry:ui''), (''files'', JArr [JNull])])
     = Inl ''TypeError: null is not an object (evaluating file.path)''
   \<and> validateRegistryItem
     (JObj [(''name'', JStr ''x''), (''type'', JStr ''registry:ui''), (''files'', JArr [JNum ''5''])])
     = Inr \<lparr>valid = False, error = Some ''files[0]: missing path'', warnings = None\<rparr>"
  by (simp add: validateRegistryItem_def VALID_ITEM_TYPES_def check_string_array_def
      schema_warnings_def invalid_def show_nat.simps)

text \<open>
  The validator is left by an exception in two ways only: \<open>files\<close> is an array that
  holds \<open>null\<close>, or the \<open>$schema\<close> that the warning is to show has no string conversion.
  On every other value a result is returned.
\<close>

lemma check_files_throws:
  "check_files i fs = Inl exn \<Longrightarrow> JNull \<in> set fs"
  by (induction fs arbitrary: i) (auto split: if_splits)

lemma schema_warnings_throws:
  "schema_warnings item = Inl exn \<Longrightarrow> js_string_opt (js_prop item ''$schema'') = None"
  by (auto simp: schema_warnings_def split: if_splits option.splits)

lemma validateRegistryItem_throws_only_two_ways:
  "validateRegistryItem item = Inl exn \<Longrightarrow>
   (\<exists>fs. js_prop item ''files'' = Some (JArr fs) \<and> JNull \<in> set fs)
   \<or> js_string_opt (js_prop item ''$schema'') = None"
  by (auto simp: validateRegistryItem_def split: if_splits option.splits json.splits sum.splits
      dest: check_files_throws schema_warnings_throws)

lemma validateRegistryItem_returns_otherwise:
  assumes "\<And>fs. js_prop item ''files'' = Some (JArr fs) \<Longrightarrow> JNull \<notin> set fs"
    and "js_string_opt (js_prop item ''$schema'') \<noteq> None"
  shows "\<exists>r. validateRegistryItem item = Inr r"
proof (cases "validateRegistryItem item")
  case (Inl exn)
  from validateRegistryItem_throws_only_two_ways [OF this] assms show ?thesis by blast
next
  case (Inr r)
  then show ?thesis by blast
qed

lemma validateRegistryItem_throws_on_schema:
  "validateRegistryItem (JObj [(''$schema'', JObj [(''toString'', JNull)])])
     = Inl no_default_value"
  by (simp add: validateRegistryItem_def schema_warnings_def REGISTRY_ITEM_SCHEMA_def)

section \<open>Retry and backoff\<close>

lemma fetch_loop_all_fail:
  "attempt \<le> retries \<Longrightarrow>
   fetch_loop (\<lambda>k. Inl (err k) :: string + 'a) url retries baseDelay attempt lastError =
     (Inl (err retries),
      Fetch url # concat (map (\<lambda>k. [Sleep (baseDelay * 2 ^ (k - 1)), Fetch url])
                            [Suc attempt..<Suc retries]))"
proof (induction "retries - attempt" arbitrary: attempt lastError)
  case 0
  then have eq: "attempt = retries" by simp
  have last: "fetch_loop (\<lambda>k. Inl (err k)) url retries baseDelay (Suc retries) (Some (err retries))
                = (Inl (err retries), [])"
    by (subst fetch_loop.simps) simp
  show ?case
    unfolding eq by (subst fetch_loop.simps) (simp add: last)
next
  case (Suc d)
  then have lt: "attempt < retries" and le: "Suc attempt \<le> retries" and d: "d = retries - Suc attempt"
    by simp_all
  have step: "[Suc attempt..<Suc retries] = Suc attempt # [Suc (Suc attempt)..<Suc retries]"
    using lt by (simp add: upt_conv_Cons)
  let ?respond = "\<lambda>k. Inl (err k) :: string + 'a"
  have unfold: "fetch_loop ?respond url retries baseDelay attempt lastError =
      (fst (fetch_loop ?respond url retries baseDelay (Suc attempt) (Some (err attempt))),
       Fetch url # Sleep (baseDelay * 2 ^ attempt) #
       snd (fetch_loop ?respond url retries baseDelay (Suc attempt) (Some (err attempt))))"
    using lt by (subst fetch_loop.simps) (simp add: Let_def)
  show ?case
    unfolding unfold Suc.hyps(1) [OF d le] step by simp
qed

lemma script_fetch_loop_all_fail:
  "i \<le> retries \<Longrightarrow>
   script_fetch_loop (\<lambda>k. Inl (err k) :: string + 'a) url retries i lastError =
     (Inl (err retries),
      Fetch url # concat (map (\<lambda>k. [Sleep (RETRY_DELAY * k), Fetch url])
                            [Suc i..<Suc retries]))"
proof (induction "retries - i" arbitrary: i lastError)
  case 0
  then have eq: "i = retries" by simp
  have last: "script_fetch_loop (\<lambda>k. Inl (err k)) url retries (Suc retries) (Some (err retries))
                = (Inl (err retries), [])"
    by (subst script_fetch_loop.simps) simp
  show ?case
    unfolding eq by (subst script_fetch_loop.simps) (simp add: last)
next
  case (Suc d)
  then have lt: "i < retries" and le: "Suc i \<le> retries" and d: "d = retries - Suc i"
    by simp_all
  have step: "[Suc i..<Suc retries] = Suc i # [Suc (Suc i)..<Suc retries]"
    using lt by (simp add: upt_conv_Cons)
  let ?respond = "\<lambda>k. Inl (err k) :: string + 'a"
  have unfold: "script_fetch_loop ?respond url retries i lastError =
      (fst (script_fetch_loop ?respond url retries (Suc i) (Some (err i))),
       Fetch url # Sleep (RETRY_DELAY * (i + 1)) #
       snd (script_fetch_loop ?respond url retries (Suc i) (Some (err i))))"
    using lt by (subst script_fetch_loop.simps) (simp add: Let_def)
  show ?case
    unfolding unfold Suc.hyps(1) [OF d le] step by simp
qed

lemma count_fetch_blocks:
  "length (filter is_fetch (concat (map (\<lambda>k. [Sleep (f k), Fetch url]) ks))) = length ks"
  by (induction ks) simp_all

lemma sleeps_blocks:
  "sleeps (concat (map (\<lambda>k. [Sleep (f k), Fetch url]) ks)) = map f ks"
  by (induction ks) simp_all

text \<open>
  Claim C3, as amended. When every attempt fails, the shared \<open>fetchWithRetry\<close> makes
  exactly \<open>retries + 1\<close> attempts, sleeps \<open>baseDelay * 2^(k-1)\<close> ms before attempt \<open>k \<ge> 1\<close>
  and not before attempt 0, and throws the error of the last attempt; with
  \<open>retries = 2\<close> and \<open>baseDelay = 100\<close> that is 3 attempts and 100 + 200 ms of sleep. The
  private \<open>fetchWithRetry\<close> of the limeplay and aceternity scripts makes the same
  attempts and throws the last error, but backs off linearly: it sleeps
  \<open>RETRY_DELAY * k\<close> ms before attempt \<open>k\<close>.
\<close>

theorem fetchWithRetry_exhausted:
  "fetchWithRetry (\<lambda>k. Inl (err k)) url retries baseDelay =
     (Inl (err retries),
      Fetch url # concat (map (\<lambda>k. [Sleep (baseDelay * 2 ^ (k - 1)), Fetch url]) [1..<Suc retries]))
   \<and> length (filter is_fetch (snd (fetchWithRetry (\<lambda>k. Inl (err k)) url retries baseDelay)))
       = retries + 1
   \<and> sleeps (snd (fetchWithRetry (\<lambda>k. Inl (err k)) url retries baseDelay))
       = map (\<lambda>k. baseDelay * 2 ^ (k - 1)) [1..<Suc retries]
   \<and> length (filter is_fetch (snd (fetchWithRetry (\<lambda>k. Inl (err k)) url 2 100))) = 3
   \<and> sum_list (sleeps (snd (fetchWithRetry (\<lambda>k. Inl (err k)) url 2 100))) = 100 + 200
   \<and> script_fetchWithRetry (\<lambda>k. Inl (err k)) url retries =
     (Inl (err retries),
      Fetch url # concat (map (\<lambda>k. [Sleep (RETRY_DELAY * k), Fetch url]) [1..<Suc retries]))"
proof -
  have shared: "fetchWithRetry (\<lambda>k. Inl (err k)) url r b =
     (Inl (err r),
      Fetch url # concat (map (\<lambda>k. [Sleep (b * 2 ^ (k - 1)), Fetch url]) [1..<Suc r]))" for r b
    unfolding fetchWithRetry_def using fetch_loop_all_fail [of 0 r err url b None]
    by (simp del: upt_Suc)
  have script: "script_fetchWithRetry (\<lambda>k. Inl (err k)) url retries =
     (Inl (err retries),
      Fetch url # concat (map (\<lambda>k. [Sleep (RETRY_DELAY * k), Fetch url]) [1..<Suc retries]))"
    unfolding script_fetchWithRetry_def
    using script_fetch_loop_all_fail [of 0 retries err url None] by (simp del: upt_Suc)
  have two: "[Suc 0..<3] = [Suc 0, 2]" by (simp add: upt_rec)
  show ?thesis
    apply (intro conjI)
         apply (rule shared)
        apply (simp add: shared count_fetch_blocks)
       apply (simp add: shared sleeps_blocks)
      apply (simp add: shared count_fetch_blocks)
     apply (simp add: shared sleeps_blocks two)
    apply (rule script)
    done
qed

text \<open>
  Claim C3 as stated fails for the scripts' \<open>fetchWithRetry\<close>: with 3 retries the sleeps
  are 1000, 2000 and 3000 ms, not 1000, 2000 and 4000 ms.
\<close>

theorem script_backoff_counterexample:
  "snd (script_fetchWithRetry (\<lambda>k. Inl ''down'' :: string + json) ''u'' 3)
     \<noteq> Fetch ''u'' # concat (map (\<lambda>k. [Sleep (RETRY_DELAY * 2 ^ (k - 1)), Fetch ''u'']) [1..<Suc 3])"
proof -
  have "[1..<Suc 3] = [1, 2, 3::nat]" by (simp add: upt_rec)
  moreover have "snd (script_fetchWithRetry (\<lambda>k. Inl ''down'' :: string + json) ''u'' 3)
    = Fetch ''u'' # concat (map (\<lambda>k. [Sleep (RETRY_DELAY * k), Fetch ''u'']) [1..<Suc 3])"
    unfolding script_fetchWithRetry_def
    by (simp add: script_fetch_loop_all_fail del: upt_Suc)
  ultimately show ?thesis by (simp add: RETRY_DELAY_def)
qed

section \<open>Deduplication of the index\<close>












section \<open>Traces, and the item loop of the template script\<close>

subsection \<open>Traces and the file system\<close>

lemma apply_events_append:
  "apply_events (xs @ ys) fs = apply_events ys (apply_events xs fs)"
  by (induction xs arbitrary: fs) simp_all

lemma apply_events_no_disk:
  "\<forall>e\<in>set tr. \<not> touches_disk e \<Longrightarrow> apply_events tr fs = fs"
proof (induction tr arbitrary: fs)
  case Nil
  show ?case by simp
next
  case (Cons e tr)
  then have "apply_event e fs = fs" by (cases e) simp_all
  with Cons show ?case by simp
qed


lemma files_apply_events_written:
  "Write path v \<in> set tr \<Longrightarrow> files (apply_events tr fs) path \<noteq> None"
proof (induction tr arbitrary: fs rule: rev_induct)
  case Nil
  then show ?case by simp
next
  case (snoc e tr)
  show ?case
  proof (cases "e = Write path v")
    case True
    then show ?thesis by (simp add: apply_events_append)
  next
    case False
    with snoc have "files (apply_events tr fs) path \<noteq> None" by simp
    then show ?thesis by (cases e) (auto simp: apply_events_append)
  qed
qed

subsection \<open>The retrying fetch touches the network only\<close>

lemma fetch_loop_events:
  "set (snd (fetch_loop respond url retries baseDelay attempt lastError))
     \<subseteq> insert (Fetch url) (range Sleep)"
proof (induction "Suc retries - attempt" arbitrary: attempt lastError)
  case 0
  then show ?case by (subst fetch_loop.simps) simp
next
  case (Suc d)
  then have le: "attempt \<le> retries" and d: "d = Suc retries - Suc attempt" by simp_all
  show ?case
  proof (cases "respond attempt")
    case (Inr body)
    then show ?thesis using le by (subst fetch_loop.simps) simp
  next
    case (Inl err)
    then show ?thesis
      using le Suc.hyps(1) [OF d, of "Some err"]
      by (subst fetch_loop.simps) (auto simp: Let_def)
  qed
qed

lemma script_fetch_loop_events:
  "set (snd (script_fetch_loop respond url retries i lastError))
     \<subseteq> insert (Fetch url) (range Sleep)"
proof (induction "Suc retries - i" arbitrary: i lastError)
  case 0
  then show ?case by (subst script_fetch_loop.simps) simp
next
  case (Suc d)
  then have le: "i \<le> retries" and d: "d = Suc retries - Suc i" by simp_all
  show ?case
  proof (cases "respond i")
    case (Inr body)
    then show ?thesis using le by (subst script_fetch_loop.simps) simp
  next
    case (Inl err)
    then show ?thesis
      using le Suc.hyps(1) [OF d, of "Some err"]
      by (subst script_fetch_loop.simps) (auto simp: Let_def)
  qed
qed

lemma fetchComponentDetail_events:
  "set (snd (fetchComponentDetail detail_net config nm))
     \<subseteq> insert (Fetch (component_url config nm)) (range Sleep)"
  unfolding fetchComponentDetail_def fetchWithRetry_def by (rule fetch_loop_events)

lemma fetchRegistryIndex_events:
  "set (snd (fetchRegistryIndex index_net config))
     \<subseteq> insert (Fetch (indexUrl (source config))) (range Sleep)"
  unfolding fetchRegistryIndex_def fetchWithRetry_def by (rule fetch_loop_events)

subsection \<open>The item loop of the template script\<close>

lemma sync_item_cases:
  "sync_item detail_net config item =
     (case fetchComponentDetail detail_net config (name item) of
        (Inl err, tr) \<Rightarrow> (Inl err, tr)
      | (Inr detail, tr) \<Rightarrow>
          (if passes_validation detail
           then (Inr (), tr @ [Mkdir (dirname (join OUTPUT_DIR (name item @ ''.json''))),
                              Write (join OUTPUT_DIR (name item @ ''.json'')) detail])
           else (Inl (case validateRegistryItem detail of
                        Inl exn \<Rightarrow> exn
                      | Inr validation \<Rightarrow> (case error validation of Some msg \<Rightarrow> msg | None \<Rightarrow> [])),
                 tr)))"
  by (auto simp: sync_item_def passes_validation_def transformItem_def
      split: prod.splits sum.splits)

lemma sync_item_writes:
  "Write path v \<in> set (snd (sync_item detail_net config item)) \<Longrightarrow>
   path = join OUTPUT_DIR (name item @ ''.json'')
   \<and> fst (fetchComponentDetail detail_net config (name item)) = Inr v
   \<and> passes_validation v
   \<and> fst (sync_item detail_net config item) = Inr ()"
  using fetchComponentDetail_events [of detail_net config "name item"]
  by (auto simp: sync_item_cases split: prod.splits sum.splits if_splits)

lemma sync_items_dry:
  "sync_items detail_net config True xs = (map name xs, [], [])"
  by (induction xs) simp_all

lemma sync_items_result:
  "sync_items detail_net config False xs =
     (map name (filter (\<lambda>i. fst (sync_item detail_net config i) = Inr ()) xs),
      concat (map (\<lambda>i. case fst (sync_item detail_net config i) of
                          Inl msg \<Rightarrow> [(name i, msg)] | Inr u \<Rightarrow> []) xs),
      concat (map (\<lambda>i. snd (sync_item detail_net config i)) xs))"
  by (induction xs) (auto split: prod.splits sum.splits)

lemma sync_items_length:
  "sync_items detail_net config dry xs = (succ, fails, tr) \<Longrightarrow>
   length succ + length fails = length xs"
proof (induction xs arbitrary: succ fails tr)
  case Nil
  then show ?case by simp
next
  case (Cons x xs)
  obtain s f t where rest: "sync_items detail_net config dry xs = (s, f, t)"
    by (cases "sync_items detail_net config dry xs") auto
  from Cons.IH [OF rest] Cons.prems rest show ?case
    by (auto split: if_splits prod.splits sum.splits)
qed

lemma sync_items_member:
  "sync_items detail_net config dry xs = (succ, fails, tr) \<Longrightarrow>
   (n \<in> set succ \<or> n \<in> fst ` set fails) = (n \<in> name ` set xs)"
proof (induction xs arbitrary: succ fails tr)
  case Nil
  then show ?case by simp
next
  case (Cons x xs)
  obtain s f t where rest: "sync_items detail_net config dry xs = (s, f, t)"
    by (cases "sync_items detail_net config dry xs") auto
  from Cons.IH [OF rest] Cons.prems rest show ?case
    by (auto split: if_splits prod.splits sum.splits)
qed

lemma sync_items_names:
  "sync_items detail_net config dry xs = (succ, fails, tr) \<Longrightarrow>
   set succ \<union> fst ` set fails = name ` set xs"
  using sync_items_member [of detail_net config dry xs succ fails tr] by blast

section \<open>The working set\<close>

text \<open>
  Claim C4, as amended. The template script obtains its working set from the index
  entries as fetched (it does not deduplicate) by applying, in order, the caller's
  \<open>only\<close> list when it is not empty, the configuration's \<open>include\<close> list when it is not
  empty, and the configuration's \<open>exclude\<close> list. Every name it reports as succeeded or
  failed is a name of the working set, every working-set entry is reported once,
  nothing is reported as skipped, and \<open>total\<close> is the size of the unfiltered index. For
  the entries \<open>a, b, c\<close> with \<open>only = {a, b}\<close>, \<open>include = {}\<close> and \<open>exclude = {b}\<close> the
  working set is exactly \<open>a\<close>. The limeplay script applies \<open>only\<close> and \<open>exclude\<close> to the
  deduplicated entries and has no \<open>include\<close> filter (on the example it also gives
  \<open>a\<close>); the aceternity script applies \<open>only\<close> alone.
\<close>

theorem sync_working_set:
  "filter_items opts config items =
     filter (\<lambda>i. name i \<notin> set (exclude (syncConfig config)))
       (filter (\<lambda>i. includeList (syncConfig config) = []
                    \<or> name i \<in> set (includeList (syncConfig config)))
          (filter (\<lambda>i. only opts = [] \<or> name i \<in> set (only opts)) items))
   \<and> (fetchRegistryIndex index_net config = (Inr items, tr) \<longrightarrow>
        (case fst (sync index_net detail_net config now opts) of
           Inl err \<Rightarrow> False
         | Inr r \<Rightarrow>
             set (success r) \<union> fst ` set (failed r) = name ` set (filter_items opts config items)
             \<and> length (success r) + length (failed r) = length (filter_items opts config items)
             \<and> skipped r = []
             \<and> total (stats r) = length items))
   \<and> filter_items \<lparr>only = [''a'', ''b''], dryRun = dry\<rparr> (config_with [] [''b''] gen)
         [entry_named ''a'', entry_named ''b'', entry_named ''c''] = [entry_named ''a'']
   \<and> limeplay_filter config flt items =
       filter (\<lambda>i. name i \<notin> set (exclude (syncConfig config)))
         (filter (\<lambda>i. case flt of None \<Rightarrow> True | Some names \<Rightarrow> name i \<in> set names) items)
   \<and> limeplay_filter (config_with incl [''b''] gen) (Some [''a'', ''b''])
         [entry_named ''a'', entry_named ''b'', entry_named ''c''] = [entry_named ''a'']
   \<and> aceternity_filter flt items =
       filter (\<lambda>i. case flt of None \<Rightarrow> True | Some names \<Rightarrow> name i \<in> set names) items"
proof -
  have general: "filter_items opts config items =
     filter (\<lambda>i. name i \<notin> set (exclude (syncConfig config)))
       (filter (\<lambda>i. includeList (syncConfig config) = []
                    \<or> name i \<in> set (includeList (syncConfig config)))
          (filter (\<lambda>i. only opts = [] \<or> name i \<in> set (only opts)) items))"
    by (simp add: filter_items_def Let_def)
  have run: "fetchRegistryIndex index_net config = (Inr items, tr) \<longrightarrow>
        (case fst (sync index_net detail_net config now opts) of
           Inl err \<Rightarrow> False
         | Inr r \<Rightarrow>
             set (success r) \<union> fst ` set (failed r) = name ` set (filter_items opts config items)
             \<and> length (success r) + length (failed r) = length (filter_items opts config items)
             \<and> skipped r = []
             \<and> total (stats r) = length items)"
  proof
    assume idx: "fetchRegistryIndex index_net config = (Inr items, tr)"
    obtain succ fails item_tr where loop:
      "sync_items detail_net config (dryRun opts) (filter_items opts config items)
         = (succ, fails, item_tr)"
      by (cases "sync_items detail_net config (dryRun opts) (filter_items opts config items)") auto
    show "case fst (sync index_net detail_net config now opts) of
           Inl err \<Rightarrow> False
         | Inr r \<Rightarrow>
             set (success r) \<union> fst ` set (failed r) = name ` set (filter_items opts config items)
             \<and> length (success r) + length (failed r) = length (filter_items opts config items)
             \<and> skipped r = []
             \<and> total (stats r) = length items"
      using sync_items_names [OF loop] sync_items_length [OF loop]
      by (simp add: sync_def idx loop Let_def)
  qed
  have example: "filter_items \<lparr>only = [''a'', ''b''], dryRun = dry\<rparr> (config_with [] [''b''] gen)
         [entry_named ''a'', entry_named ''b'', entry_named ''c''] = [entry_named ''a'']"
    by (simp add: filter_items_def config_with_def entry_named_def)
  have lime: "limeplay_filter config flt items =
       filter (\<lambda>i. name i \<notin> set (exclude (syncConfig config)))
         (filter (\<lambda>i. case flt of None \<Rightarrow> True | Some names \<Rightarrow> name i \<in> set names) items)"
    by (simp add: limeplay_filter_def Let_def split: option.splits)
  have lime_example: "limeplay_filter (config_with incl [''b''] gen) (Some [''a'', ''b''])
         [entry_named ''a'', entry_named ''b'', entry_named ''c''] = [entry_named ''a'']"
    by (simp add: limeplay_filter_def config_with_def entry_named_def)
  have ace: "aceternity_filter flt items =
       filter (\<lambda>i. case flt of None \<Rightarrow> True | Some names \<Rightarrow> name i \<in> set names) items"
    by (simp add: aceternity_filter_def split: option.splits)
  show ?thesis
    using general run example lime lime_example ace by (intro conjI)
qed

text \<open>
  The hypothesis of C4's theorem, a fetched index, holds of an endpoint that answers
  with \<open>a, b, c\<close>; with \<open>only = {a, b}\<close> and \<open>exclude = {b}\<close> the run reports exactly \<open>a\<close>.
\<close>

theorem sync_working_set_witness:
  "fetchRegistryIndex (\<lambda>url k. Inr [entry_named ''a'', entry_named ''b'', entry_named ''c''])
       (config_with [] [''b''] True)
     = (Inr [entry_named ''a'', entry_named ''b'', entry_named ''c''],
        [Fetch ''https://r.test/registry.json''])
   \<and> (case fst (sync (\<lambda>url k. Inr [entry_named ''a'', entry_named ''b'', entry_named ''c''])
                  (\<lambda>url k. Inr (item_named ''a'')) (config_with [] [''b''] True) ''now''
                  \<lparr>only = [''a'', ''b''], dryRun = False\<rparr>) of
         Inl err \<Rightarrow> False
       | Inr r \<Rightarrow> set (success r) \<union> fst ` set (failed r) = {''a''}
                 \<and> length (success r) + length (failed r) = 1
                 \<and> skipped r = [] \<and> total (stats r) = 3)"
proof -
  let ?idx = "\<lambda>(url :: string) (k :: nat).
                (Inr [entry_named ''a'', entry_named ''b'', entry_named ''c''] :: string + IndexEntry list)"
  have idx: "fetchRegistryIndex ?idx (config_with [] [''b''] True)
     = (Inr [entry_named ''a'', entry_named ''b'', entry_named ''c''],
        [Fetch ''https://r.test/registry.json''])"
    by code_simp
  have ws: "filter_items \<lparr>only = [''a'', ''b''], dryRun = False\<rparr> (config_with [] [''b''] True)
         [entry_named ''a'', entry_named ''b'', entry_named ''c''] = [entry_named ''a'']"
    by (rule sync_working_set [THEN conjunct2, THEN conjunct2, THEN conjunct1])
  have nm: "name (entry_named ''a'') = ''a''" by (simp add: entry_named_def)
  let ?opts = "\<lparr>only = [''a'', ''b''], dryRun = False\<rparr>"
  let ?cfg = "config_with [] [''b''] True"
  let ?items = "[entry_named ''a'', entry_named ''b'', entry_named ''c'']"
  let ?det = "\<lambda>(url :: string) (k :: nat). (Inr (item_named ''a'') :: string + json)"
  have "fetchRegistryIndex ?idx ?cfg = (Inr ?items, [Fetch ''https://r.test/registry.json'']) \<longrightarrow>
        (case fst (sync ?idx ?det ?cfg ''now'' ?opts) of
           Inl err \<Rightarrow> False
         | Inr r \<Rightarrow>
             set (success r) \<union> fst ` set (failed r) = name ` set (filter_items ?opts ?cfg ?items)
             \<and> length (success r) + length (failed r) = length (filter_items ?opts ?cfg ?items)
             \<and> skipped r = []
             \<and> total (stats r) = length ?items)"
    by (rule sync_working_set [of ?opts ?cfg ?items ?idx
        "[Fetch ''https://r.test/registry.json'']" ?det "''now''", THEN conjunct2, THEN conjunct1])
  with idx have "case fst (sync ?idx ?det ?cfg ''now'' ?opts) of
           Inl err \<Rightarrow> False
         | Inr r \<Rightarrow>
             set (success r) \<union> fst ` set (failed r) = name ` set (filter_items ?opts ?cfg ?items)
             \<and> length (success r) + length (failed r) = length (filter_items ?opts ?cfg ?items)
             \<and> skipped r = []
             \<and> total (stats r) = length ?items"
    by blast
  then have "case fst (sync ?idx ?det ?cfg ''now'' ?opts) of
         Inl err \<Rightarrow> False
       | Inr r \<Rightarrow> set (success r) \<union> fst ` set (failed r) = {''a''}
                 \<and> length (success r) + length (failed r) = 1
                 \<and> skipped r = [] \<and> total (stats r) = 3"
    unfolding ws by (auto simp: nm split: sum.splits)
  with idx show ?thesis by blast
qed

text \<open>
  Claim C4 as stated fails for the two scripts it is drawn from: limeplay ignores a
  non-empty \<open>include\<close> list (with \<open>include = {a}\<close> the entries \<open>a, b\<close> both stay in the
  working set), and aceternity ignores \<open>exclude\<close> as well (on the claim's own example
  its working set is \<open>a, b\<close>, and \<open>b.json\<close> is fetched).
\<close>

theorem script_filters_counterexample:
  "limeplay_filter (config_with [''a''] [] True) None [entry_named ''a'', entry_named ''b'']
     = [entry_named ''a'', entry_named ''b'']
   \<and> aceternity_filter (Some [''a'', ''b''])
       [entry_named ''a'', entry_named ''b'', entry_named ''c'']
     = [entry_named ''a'', entry_named ''b'']
   \<and> Fetch ''https://r.test/b.json''
       \<in> set (snd (aceternity_main
                     (\<lambda>url k. Inr [entry_named ''a'', entry_named ''b'', entry_named ''c''])
                     (\<lambda>url k. Inr (item_named ''a'')) (config_with [] [''b''] True) ''now'' []
                     (Some [''a'', ''b'']) False))"
  by code_simp

section \<open>Only validated items are written\<close>

lemma sync_trace:
  "snd (sync index_net detail_net config now opts) =
     (case fetchRegistryIndex index_net config of
        (Inl err, tr) \<Rightarrow> tr
      | (Inr items, tr) \<Rightarrow>
          tr @ (if dryRun opts then []
                else Mkdir OUTPUT_DIR #
                     concat (map (\<lambda>i. snd (sync_item detail_net config i))
                               (filter_items opts config items)))
             @ generate_index config now opts
                 (fst (sync_items detail_net config (dryRun opts) (filter_items opts config items)))
                 (filter_items opts config items))"
  by (cases "dryRun opts")
     (simp_all add: sync_def Let_def sync_items_dry sync_items_result
        split: prod.splits sum.splits)

lemma generate_index_writes:
  "Write path v \<in> set (generate_index config now opts succ filtered) \<Longrightarrow>
   (path = join OUTPUT_DIR ''index.json'' \<or> path = join OUTPUT_DIR ''registry.json'')
   \<and> v = aggregate_index config now succ filtered
   \<and> generateIndex (outputConfig config) \<and> \<not> dryRun opts"
  by (auto simp: generate_index_def split: if_splits)

text \<open>
  Claim C1, as amended. In the template script, outside dry-run, the loop fetches the
  detail of each working-set entry, validates it, and writes \<open><output>/<name>.json\<close>
  only when the validator returns a valid result; when the fetch fails, the validator
  throws or the result is invalid, nothing is written for that entry. So every file
  the run writes is either the fetched detail of a working-set entry that passed
  \<open>validateRegistryItem\<close>, or one of the two aggregate index files. (The limeplay and
  aceternity scripts do not validate.)
\<close>

theorem sync_writes_validated:
  "sync_item detail_net config item =
     (case fetchComponentDetail detail_net config (name item) of
        (Inl err, tr) \<Rightarrow> (Inl err, tr)
      | (Inr detail, tr) \<Rightarrow>
          (if passes_validation detail
           then (Inr (), tr @ [Mkdir (dirname (join OUTPUT_DIR (name item @ ''.json''))),
                              Write (join OUTPUT_DIR (name item @ ''.json'')) detail])
           else (Inl (case validateRegistryItem detail of
                        Inl exn \<Rightarrow> exn
                      | Inr validation \<Rightarrow> (case error validation of Some msg \<Rightarrow> msg | None \<Rightarrow> [])),
                 tr)))
   \<and> (\<forall>path v. Write path v \<in> set (snd (sync index_net detail_net config now opts)) \<longrightarrow>
        (\<not> dryRun opts \<and> passes_validation v
         \<and> (\<exists>items tr. fetchRegistryIndex index_net config = (Inr items, tr)
              \<and> (\<exists>i \<in> set (filter_items opts config items).
                    path = join OUTPUT_DIR (name i @ ''.json'')
                    \<and> fst (fetchComponentDetail detail_net config (name i)) = Inr v)))
        \<or> (\<not> dryRun opts \<and> generateIndex (outputConfig config)
            \<and> (path = join OUTPUT_DIR ''index.json'' \<or> path = join OUTPUT_DIR ''registry.json'')
            \<and> (\<exists>succ filtered. v = aggregate_index config now succ filtered)))"
proof (intro conjI allI impI)
  show "sync_item detail_net config item =
     (case fetchComponentDetail detail_net config (name item) of
        (Inl err, tr) \<Rightarrow> (Inl err, tr)
      | (Inr detail, tr) \<Rightarrow>
          (if passes_validation detail
           then (Inr (), tr @ [Mkdir (dirname (join OUTPUT_DIR (name item @ ''.json''))),
                              Write (join OUTPUT_DIR (name item @ ''.json'')) detail])
           else (Inl (case validateRegistryItem detail of
                        Inl exn \<Rightarrow> exn
                      | Inr validation \<Rightarrow> (case error validation of Some msg \<Rightarrow> msg | None \<Rightarrow> [])),
                 tr)))"
    by (rule sync_item_cases)
next
  fix path v
  assume w: "Write path v \<in> set (snd (sync index_net detail_net config now opts))"
  obtain res tr where idx: "fetchRegistryIndex index_net config = (res, tr)"
    by (cases "fetchRegistryIndex index_net config") auto
  have no_idx: "Write path v \<notin> set tr"
    using fetchRegistryIndex_events [of index_net config] idx by auto
  show "(\<not> dryRun opts \<and> passes_validation v
         \<and> (\<exists>items tr. fetchRegistryIndex index_net config = (Inr items, tr)
              \<and> (\<exists>i \<in> set (filter_items opts config items).
                    path = join OUTPUT_DIR (name i @ ''.json'')
                    \<and> fst (fetchComponentDetail detail_net config (name i)) = Inr v)))
        \<or> (\<not> dryRun opts \<and> generateIndex (outputConfig config)
            \<and> (path = join OUTPUT_DIR ''index.json'' \<or> path = join OUTPUT_DIR ''registry.json'')
            \<and> (\<exists>succ filtered. v = aggregate_index config now succ filtered))"
  proof (cases res)
    case (Inl err)
    with w idx no_idx show ?thesis by (simp add: sync_trace)
  next
    case (Inr items)
    let ?ws = "filter_items opts config items"
    let ?succ = "fst (sync_items detail_net config (dryRun opts) ?ws)"
    from w idx Inr no_idx
    have "(\<not> dryRun opts \<and> (\<exists>i \<in> set ?ws. Write path v \<in> set (snd (sync_item detail_net config i))))
          \<or> Write path v \<in> set (generate_index config now opts ?succ ?ws)"
      by (auto simp: sync_trace split: if_splits)
    then show ?thesis
    proof
      assume "\<not> dryRun opts \<and> (\<exists>i \<in> set ?ws. Write path v \<in> set (snd (sync_item detail_net config i)))"
      then obtain i where nd: "\<not> dryRun opts" and i: "i \<in> set ?ws"
        and wi: "Write path v \<in> set (snd (sync_item detail_net config i))" by blast
      from sync_item_writes [OF wi] nd i idx Inr show ?thesis by blast
    next
      assume "Write path v \<in> set (generate_index config now opts ?succ ?ws)"
      from generate_index_writes [OF this] show ?thesis by blast
    qed
  qed
qed

text \<open>
  The hypothesis of C1's theorem, a write in the trace, holds in the run over the
  entries \<open>a\<close> (a valid detail) and \<open>b\<close> (a detail of type \<open>bogus\<close>): \<open>a.json\<close> is written,
  and the theorem gives that its content passed validation and that the invalid
  detail of \<open>b\<close> is not written.
\<close>

theorem sync_writes_validated_witness:
  "Write (join OUTPUT_DIR ''a.json'') (item_named ''a'')
     \<in> set (snd (sync (serve_index [entry_named ''a'', entry_named ''b''])
                  (serve [(''https://r.test/a.json'', item_named ''a''),
                          (''https://r.test/b.json'', bogus_named ''b'')])
                  (config_with [] [] True) ''now'' \<lparr>only = [], dryRun = False\<rparr>))
   \<and> passes_validation (item_named ''a'')
   \<and> \<not> passes_validation (bogus_named ''b'')
   \<and> Write (join OUTPUT_DIR ''b.json'') (bogus_named ''b'')
     \<notin> set (snd (sync (serve_index [entry_named ''a'', entry_named ''b''])
                  (serve [(''https://r.test/a.json'', item_named ''a''),
                          (''https://r.test/b.json'', bogus_named ''b'')])
                  (config_with [] [] True) ''now'' \<lparr>only = [], dryRun = False\<rparr>))"
proof -
  let ?T = "snd (sync (serve_index [entry_named ''a'', entry_named ''b''])
                  (serve [(''https://r.test/a.json'', item_named ''a''),
                          (''https://r.test/b.json'', bogus_named ''b'')])
                  (config_with [] [] True) ''now'' \<lparr>only = [], dryRun = False\<rparr>)"
  have written: "Write (join OUTPUT_DIR ''a.json'') (item_named ''a'') \<in> set ?T"
    by code_simp
  have paths: "(join OUTPUT_DIR ''a.json'') \<noteq> join OUTPUT_DIR ''index.json''"
    "(join OUTPUT_DIR ''a.json'') \<noteq> join OUTPUT_DIR ''registry.json''"
    "(join OUTPUT_DIR ''b.json'') \<noteq> join OUTPUT_DIR ''index.json''"
    "(join OUTPUT_DIR ''b.json'') \<noteq> join OUTPUT_DIR ''registry.json''"
    by code_simp+
  have good: "passes_validation (item_named ''a'')"
    using sync_writes_validated [THEN conjunct2, rule_format, OF written] paths by blast
  have bad: "\<not> passes_validation (bogus_named ''b'')"
    by code_simp
  have "Write (join OUTPUT_DIR ''b.json'') (bogus_named ''b'') \<notin> set ?T"
  proof
    assume "Write (join OUTPUT_DIR ''b.json'') (bogus_named ''b'') \<in> set ?T"
    from sync_writes_validated [THEN conjunct2, rule_format, OF this] paths bad
    show False by blast
  qed
  with written good bad show ?thesis by blast
qed

text \<open>
  Claim C1 as stated fails for the limeplay script, which the claim is drawn from: it
  never calls the validator, and in the same run it writes the detail of \<open>b\<close>, which
  \<open>validateRegistryItem\<close> rejects.
\<close>

theorem limeplay_writes_unvalidated:
  "Write (join OUTPUT_DIR ''b.json'') (bogus_named ''b'')
     \<in> set (snd (limeplay_main (serve_index [entry_named ''a'', entry_named ''b''])
                  (serve [(''https://r.test/a.json'', item_named ''a''),
                          (''https://r.test/b.json'', bogus_named ''b'')])
                  (config_with [] [] True) ''now'' [] None False))
   \<and> validateRegistryItem (bogus_named ''b'')
       = Inr \<lparr>valid = False, error = Some ''Invalid type: bogus'', warnings = None\<rparr>"
  by code_simp

section \<open>Dry run\<close>

lemma fetchComponent_events:
  "set (snd (fetchComponent detail_net config nm))
     \<subseteq> insert (Fetch (component_url config nm)) (range Sleep)"
  using script_fetch_loop_events [of "detail_net (component_url config nm)"
      "component_url config nm" RETRY_COUNT 0 None]
  by (auto simp: fetchComponent_def script_fetchWithRetry_def split: prod.splits sum.splits)

lemma next_request_events:
  "next_request es = (now, later) \<Longrightarrow> set now \<subseteq> set es \<and> set later \<subseteq> set es"
  by (induction es arbitrary: now later) (auto split: if_splits prod.splits)

lemma start_call_events:
  assumes "start_call fetchComp item = (c, now)"
  shows "set now \<subseteq> set (snd (fetchComp (name item)))
         \<and> set (snd (snd c)) \<subseteq> set (snd (fetchComp (name item)))"
proof -
  obtain component evs where f: "fetchComp (name item) = (component, evs)"
    by (cases "fetchComp (name item)") auto
  obtain n l where nr: "next_request evs = (n, l)" by (cases "next_request evs") auto
  from assms f nr have "c = (item, component, l)" and "now = n"
    by (simp_all add: start_call_def)
  with next_request_events [OF nr] f show ?thesis by simp
qed

lemma start_calls_events:
  assumes "\<And>nm. set (snd (fetchComp nm)) \<subseteq> N"
    and "start_calls fetchComp items = (calls, evs)"
  shows "set evs \<subseteq> N \<and> (\<forall>c \<in> set calls. set (snd (snd c)) \<subseteq> N)"
  using assms(2)
proof (induction items arbitrary: calls evs)
  case Nil
  then show ?case by simp
next
  case (Cons item items)
  obtain c now where sc: "start_call fetchComp item = (c, now)"
    by (cases "start_call fetchComp item") auto
  obtain cs es where rest: "start_calls fetchComp items = (cs, es)"
    by (cases "start_calls fetchComp items") auto
  from Cons.prems sc rest have eq: "calls = c # cs" "evs = now @ es" by simp_all
  from start_call_events [OF sc] assms(1) [of "name item"]
  have "set now \<subseteq> N" "set (snd (snd c)) \<subseteq> N" by auto
  with Cons.IH [OF rest] eq show ?case by simp
qed

lemma logged_events:
  "set (snd (snd (logged now acc))) = set (snd (snd acc)) \<union> set now"
  by (cases acc) (auto simp: logged_def)

lemma complete_events:
  "snd (snd (complete item component acc)) = snd (snd acc)"
  by (cases acc) (auto simp: complete_def split: option.splits)

lemma worker_step_events:
  assumes fc: "\<And>nm. set (snd (fetchComp nm)) \<subseteq> N"
    and inv: "\<forall>c \<in> set inflight. set (snd (snd c)) \<subseteq> N"
    and acc: "set (snd (snd acc)) \<subseteq> N"
    and w: "w < length inflight"
    and step: "worker_step fetchComp w inflight queue acc = (inflight', queue', acc')"
  shows "(\<forall>c \<in> set inflight'. set (snd (snd c)) \<subseteq> N) \<and> set (snd (snd acc')) \<subseteq> N"
proof -
  obtain item component pending where call: "inflight ! w = (item, component, pending)"
    by (cases "inflight ! w") auto
  have pend: "set pending \<subseteq> N"
    using inv w call nth_mem [OF w] by fastforce
  show ?thesis
  proof (cases "pending = []")
    case False
    obtain now later where nr: "next_request pending = (now, later)"
      by (cases "next_request pending") auto
    from step call False nr
    have eq: "inflight' = inflight[w := (item, component, later)]" "acc' = logged now acc"
      by (simp_all add: worker_step_def)
    from next_request_events [OF nr] pend have nl: "set now \<subseteq> N" "set later \<subseteq> N" by auto
    have "\<forall>c \<in> set inflight'. set (snd (snd c)) \<subseteq> N"
    proof
      fix c assume "c \<in> set inflight'"
      then have "c \<in> insert (item, component, later) (set inflight)"
        unfolding eq using set_update_subset_insert by fastforce
      with inv nl show "set (snd (snd c)) \<subseteq> N" by auto
    qed
    moreover have "set (snd (snd acc')) \<subseteq> N"
      unfolding eq using logged_events [of now acc] acc nl by simp
    ultimately show ?thesis by simp
  next
    case True
    show ?thesis
    proof (cases queue)
      case Nil
      from step call True Nil
      have eq: "inflight' = take w inflight @ drop (Suc w) inflight"
        "acc' = complete item component acc"
        by (simp_all add: worker_step_def)
      have "set inflight' \<subseteq> set inflight"
        unfolding eq using set_take_subset [of w inflight] set_drop_subset [of "Suc w" inflight]
        by auto
      with inv acc show ?thesis unfolding eq(2) by (auto simp: complete_events)
    next
      case (Cons nxt rest)
      obtain c now where sc: "start_call fetchComp nxt = (c, now)"
        by (cases "start_call fetchComp nxt") auto
      from step call True Cons sc
      have eq: "inflight' = inflight[w := c]" "acc' = logged now (complete item component acc)"
        by (simp_all add: worker_step_def)
      from start_call_events [OF sc] fc [of "name nxt"]
      have nl: "set now \<subseteq> N" "set (snd (snd c)) \<subseteq> N" by auto
      have "\<forall>d \<in> set inflight'. set (snd (snd d)) \<subseteq> N"
      proof
        fix d assume "d \<in> set inflight'"
        then have "d \<in> insert c (set inflight)"
          unfolding eq using set_update_subset_insert by fastforce
        with inv nl show "set (snd (snd d)) \<subseteq> N" by auto
      qed
      moreover have "set (snd (snd acc')) \<subseteq> N"
        unfolding eq using logged_events [of now "complete item component acc"] acc nl
        by (simp add: complete_events)
      ultimately show ?thesis by simp
    qed
  qed
qed

lemma run_workers_events:
  "(\<And>nm. set (snd (fetchComp nm)) \<subseteq> N) \<Longrightarrow>
   \<forall>c \<in> set inflight. set (snd (snd c)) \<subseteq> N \<Longrightarrow> set (snd (snd acc)) \<subseteq> N \<Longrightarrow>
   set (snd (snd (run_workers fetchComp sched inflight queue acc))) \<subseteq> N"
proof (induction fetchComp sched inflight queue acc rule: run_workers.induct)
  case (1 fetchComp sched queue acc)
  then show ?case by (simp add: run_workers.simps)
next
  case (2 fetchComp sched x inflight queue acc)
  let ?w = "pick sched (Suc (length inflight))"
  obtain inflight' queue' acc'
    where step: "worker_step fetchComp ?w (x # inflight) queue acc = (inflight', queue', acc')"
    by (cases "worker_step fetchComp ?w (x # inflight) queue acc") auto
  have w: "?w < length (x # inflight)" by (cases sched) auto
  from worker_step_events [OF "2.prems"(1) "2.prems"(2) "2.prems"(3) w step]
  have inv': "\<forall>c \<in> set inflight'. set (snd (snd c)) \<subseteq> N" and acc': "set (snd (snd acc')) \<subseteq> N"
    by simp_all
  have "set (snd (snd (run_workers fetchComp (tl sched) inflight' queue' acc'))) \<subseteq> N"
    using "2.IH" [OF step [symmetric] refl "2.prems"(1) inv' acc'] .
  then show ?case using step by (simp add: run_workers.simps)
qed

lemma start_workers_no_disk:
  "e \<in> set (snd (snd (start_workers (fetchComponent detail_net config) sched xs))) \<Longrightarrow>
   \<not> touches_disk e"
proof -
  let ?fc = "fetchComponent detail_net config"
  let ?k = "min CONCURRENCY (length xs)"
  obtain calls evs where sc: "start_calls ?fc (take ?k xs) = (calls, evs)"
    by (cases "start_calls ?fc (take ?k xs)") auto
  have fc: "set (snd (?fc nm)) \<subseteq> {e. \<not> touches_disk e}" for nm
    using fetchComponent_events [of detail_net config nm] by auto
  from start_calls_events [OF fc sc]
  have "set evs \<subseteq> {e. \<not> touches_disk e}"
    and "\<forall>c \<in> set calls. set (snd (snd c)) \<subseteq> {e. \<not> touches_disk e}" by simp_all
  then have "set (snd (snd (run_workers ?fc sched calls (drop ?k xs) ([], [], evs))))
          \<subseteq> {e. \<not> touches_disk e}"
    by (intro run_workers_events fc) simp_all
  then have "set (snd (snd (start_workers ?fc sched xs))) \<subseteq> {e. \<not> touches_disk e}"
    using sc by (simp add: start_workers_def)
  then show "e \<in> set (snd (snd (start_workers ?fc sched xs))) \<Longrightarrow> \<not> touches_disk e"
    by blast
qed

lemma start_workers_trace_no_disk:
  "start_workers (fetchComponent detail_net config) sched xs = (results, failed_names, tr) \<Longrightarrow>
   e \<in> set tr \<Longrightarrow> \<not> touches_disk e"
  using start_workers_no_disk [of e detail_net config sched xs] by simp

lemma script_index_fetch_no_disk:
  "e \<in> set (snd (script_fetchWithRetry respond url retries)) \<Longrightarrow> \<not> touches_disk e"
  using script_fetch_loop_events [of respond url retries 0 None]
  by (auto simp: script_fetchWithRetry_def)

lemma save_components_dry: "snd (save_components components True) = []"
  by (induction components)
     (auto simp: saveComponent_def split: sum.splits prod.splits option.splits)

lemma save_all_dry: "snd (save_all config now components True) = []"
  using save_components_dry [of components]
  by (auto simp: save_all_def saveRegistryIndex_def split: sum.splits prod.splits)

lemma save_all_dry_trace:
  "save_all config now components True = (outcome, tr) \<Longrightarrow> tr = []"
  using save_all_dry [of config now components] by simp

lemma limeplay_dry_no_disk:
  "e \<in> set (snd (limeplay_main index_net detail_net config now sched flt True)) \<Longrightarrow>
   \<not> touches_disk e"
  using script_index_fetch_no_disk [of e "index_net (indexUrl (source config))"
      "indexUrl (source config)" RETRY_COUNT]
  by (auto simp: limeplay_main_def limeplay_fetchRegistryIndex_def limeplay_downloadComponents_def
      split: prod.splits sum.splits dest: start_workers_trace_no_disk save_all_dry_trace)

lemma aceternity_dry_no_disk:
  "e \<in> set (snd (aceternity_main index_net detail_net config now sched flt True)) \<Longrightarrow>
   \<not> touches_disk e"
  using script_index_fetch_no_disk [of e "index_net (indexUrl (source config))"
      "indexUrl (source config)" RETRY_COUNT]
  by (auto simp: aceternity_main_def aceternity_fetchRegistryIndex_def
      aceternity_downloadComponents_def split: prod.splits sum.splits
      dest: start_workers_trace_no_disk save_all_dry_trace)

text \<open>
  Claim C2, as amended. A dry run of the template script performs the index fetch and
  nothing else: its trace is the trace of the index fetch, so no detail endpoint is
  called, no directory is made and no file is written, and the file system after the
  run is the file system before it. When the index is fetched, every working-set
  entry is recorded as succeeded, and the reported \<open>synced\<close> count is the size of the
  working set. A dry run of the limeplay or aceternity script also leaves the file
  system unchanged. (Those two scripts do fetch every working-set entry's detail in a
  dry run, and report the number of components fetched.)
\<close>

theorem dry_run_writes_nothing:
  "(dryRun opts \<longrightarrow>
      snd (sync index_net detail_net config now opts) = snd (fetchRegistryIndex index_net config)
      \<and> (\<forall>e \<in> set (snd (sync index_net detail_net config now opts)).
           e = Fetch (indexUrl (source config)) \<or> (\<exists>ms. e = Sleep ms))
      \<and> apply_events (snd (sync index_net detail_net config now opts)) fs = fs
      \<and> (\<forall>items tr. fetchRegistryIndex index_net config = (Inr items, tr) \<longrightarrow>
           fst (sync index_net detail_net config now opts)
             = Inr \<lparr>success = map name (filter_items opts config items), failed = [], skipped = [],
                    stats = \<lparr>total = length items,
                             synced = length (filter_items opts config items),
                             failedCount = 0, skippedCount = 0\<rparr>\<rparr>))
   \<and> apply_events (snd (limeplay_main index_net detail_net config now sched flt True)) fs = fs
   \<and> apply_events (snd (aceternity_main index_net detail_net config now sched flt True)) fs = fs"
proof (intro conjI impI)
  assume dry: "dryRun opts"
  show tr: "snd (sync index_net detail_net config now opts)
              = snd (fetchRegistryIndex index_net config)"
    using dry by (simp add: sync_trace generate_index_def split: prod.splits sum.splits)
  show net: "\<forall>e \<in> set (snd (sync index_net detail_net config now opts)).
          e = Fetch (indexUrl (source config)) \<or> (\<exists>ms. e = Sleep ms)"
    unfolding tr using fetchRegistryIndex_events [of index_net config] by auto
  show "apply_events (snd (sync index_net detail_net config now opts)) fs = fs"
    by (rule apply_events_no_disk) (use net in auto)
  show "\<forall>items tr. fetchRegistryIndex index_net config = (Inr items, tr) \<longrightarrow>
          fst (sync index_net detail_net config now opts)
            = Inr \<lparr>success = map name (filter_items opts config items), failed = [], skipped = [],
                   stats = \<lparr>total = length items,
                            synced = length (filter_items opts config items),
                            failedCount = 0, skippedCount = 0\<rparr>\<rparr>"
    using dry by (simp add: sync_def Let_def sync_items_dry)
next
  show "apply_events (snd (limeplay_main index_net detail_net config now sched flt True)) fs = fs"
    by (rule apply_events_no_disk) (use limeplay_dry_no_disk in blast)
next
  show "apply_events (snd (aceternity_main index_net detail_net config now sched flt True)) fs = fs"
    by (rule apply_events_no_disk) (use aceternity_dry_no_disk in blast)
qed

text \<open>
  The hypotheses of C2's theorem hold of a dry run with \<open>only = {a, b}\<close> over the index
  \<open>a, b, c\<close>: the only event is the index request, the empty output directory stays
  empty, and \<open>a\<close> and \<open>b\<close> are recorded as succeeded with \<open>synced = 2\<close>.
\<close>

theorem dry_run_writes_nothing_witness:
  "dryRun \<lparr>only = [''a'', ''b''], dryRun = True\<rparr>
   \<and> snd (sync (serve_index [entry_named ''a'', entry_named ''b'', entry_named ''c''])
            (serve []) (config_with [] [] True) ''now'' \<lparr>only = [''a'', ''b''], dryRun = True\<rparr>)
       = [Fetch ''https://r.test/registry.json'']
   \<and> apply_events
        (snd (sync (serve_index [entry_named ''a'', entry_named ''b'', entry_named ''c''])
            (serve []) (config_with [] [] True) ''now'' \<lparr>only = [''a'', ''b''], dryRun = True\<rparr>))
        empty_fs = empty_fs
   \<and> fst (sync (serve_index [entry_named ''a'', entry_named ''b'', entry_named ''c''])
            (serve []) (config_with [] [] True) ''now'' \<lparr>only = [''a'', ''b''], dryRun = True\<rparr>)
       = Inr \<lparr>success = [''a'', ''b''], failed = [], skipped = [],
              stats = \<lparr>total = 3, synced = 2, failedCount = 0, skippedCount = 0\<rparr>\<rparr>"
proof -
  let ?idx = "serve_index [entry_named ''a'', entry_named ''b'', entry_named ''c'']"
  let ?cfg = "config_with [] [] True"
  let ?opts = "\<lparr>only = [''a'', ''b''], dryRun = True\<rparr>"
  have dry: "dryRun ?opts" by simp
  have idx: "fetchRegistryIndex ?idx ?cfg
     = (Inr [entry_named ''a'', entry_named ''b'', entry_named ''c''],
        [Fetch ''https://r.test/registry.json''])"
    by code_simp
  have ws: "map name (filter_items ?opts ?cfg
               [entry_named ''a'', entry_named ''b'', entry_named ''c'']) = [''a'', ''b'']"
    by (simp add: filter_items_def config_with_def entry_named_def)
  have len: "length (filter_items ?opts ?cfg
               [entry_named ''a'', entry_named ''b'', entry_named ''c'']) = 2"
    by (simp add: filter_items_def config_with_def entry_named_def)
  note dry_facts = dry_run_writes_nothing [of ?opts ?idx "serve []" ?cfg "''now''" empty_fs,
      THEN conjunct1, rule_format, OF dry]
  have t: "snd (sync ?idx (serve []) ?cfg ''now'' ?opts) = [Fetch ''https://r.test/registry.json'']"
    using dry_facts idx by simp
  have f: "apply_events (snd (sync ?idx (serve []) ?cfg ''now'' ?opts)) empty_fs = empty_fs"
    using dry_facts by blast
  have "fst (sync ?idx (serve []) ?cfg ''now'' ?opts)
      = Inr \<lparr>success = map name (filter_items ?opts ?cfg
                 [entry_named ''a'', entry_named ''b'', entry_named ''c'']),
              failed = [], skipped = [],
              stats = \<lparr>total = length [entry_named ''a'', entry_named ''b'', entry_named ''c''],
                synced = length (filter_items ?opts ?cfg
                 [entry_named ''a'', entry_named ''b'', entry_named ''c'']),
                failedCount = 0, skippedCount = 0\<rparr>\<rparr>"
    using dry_facts idx by blast
  then have r: "fst (sync ?idx (serve []) ?cfg ''now'' ?opts)
       = Inr \<lparr>success = [''a'', ''b''], failed = [], skipped = [],
              stats = \<lparr>total = 3, synced = 2, failedCount = 0, skippedCount = 0\<rparr>\<rparr>"
    using ws len by simp
  from dry t f r show ?thesis by blast
qed

text \<open>
  Claim C2 as stated fails for the limeplay script, which the claim is drawn from: in a
  dry run over the index \<open>a, b\<close> it requests \<open>a.json\<close>, and when the fetch of \<open>b\<close> fails it
  has 1 component to report for a working set of 2.
\<close>

theorem limeplay_dry_run_fetches:
  "Fetch ''https://r.test/a.json''
     \<in> set (snd (limeplay_main (serve_index [entry_named ''a'', entry_named ''b''])
                  (serve [(''https://r.test/a.json'', item_named ''a'')])
                  (config_with [] [] True) ''now'' [] None True))
   \<and> length (limeplay_filter (config_with [] [] True) None [entry_named ''a'', entry_named ''b''])
       = 2
   \<and> (case limeplay_downloadComponents (serve [(''https://r.test/a.json'', item_named ''a'')])
              (config_with [] [] True) [] [entry_named ''a'', entry_named ''b''] None of
         (components, failed_names, tr) \<Rightarrow> length components = 1 \<and> failed_names = [''b''])"
  by code_simp

section \<open>The aggregate index\<close>

lemma succeeded_entries:
  "sync_items detail_net config dry xs = (succ, fails, tr) \<Longrightarrow>
   set (map name (filter (\<lambda>c. name c \<in> set succ) xs)) = set succ"
proof -
  assume run: "sync_items detail_net config dry xs = (succ, fails, tr)"
  have "n \<in> name ` set xs" if "n \<in> set succ" for n
    using sync_items_member [OF run, of n] that by blast
  then show ?thesis by auto
qed

lemma sync_items_success:
  "fst (sync_items detail_net config dry xs) =
     map name (filter (\<lambda>i. dry \<or> fst (sync_item detail_net config i) = Inr ()) xs)"
  by (cases dry) (simp_all add: sync_items_dry sync_items_result)

lemma filter_by_distinct_names:
  "distinct (map name xs) \<Longrightarrow>
   filter (\<lambda>c. name c \<in> set (map name (filter P xs))) xs = filter P xs"
proof (rule filter_cong [OF refl])
  fix c assume d: "distinct (map name xs)" and c: "c \<in> set xs"
  have inj: "inj_on name (set xs)" using d by (simp add: distinct_map)
  show "(name c \<in> set (map name (filter P xs))) = P c"
    using c inj by (auto simp: inj_on_def)
qed


lemma sync_result:
  "fetchRegistryIndex index_net config = (Inr items, tr) \<Longrightarrow>
   sync_items detail_net config (dryRun opts) (filter_items opts config items)
     = (succ, fails, item_tr) \<Longrightarrow>
   sync index_net detail_net config now opts =
     (Inr \<lparr>success = succ, failed = fails, skipped = [],
           stats = \<lparr>total = length items, synced = length succ,
                    failedCount = length fails, skippedCount = 0\<rparr>\<rparr>,
      tr @ (if dryRun opts then [] else [Mkdir OUTPUT_DIR]) @ item_tr
        @ generate_index config now opts succ (filter_items opts config items))"
  by (simp add: sync_def Let_def)

lemma saveComponent_dry:
  "saveComponent component dry =
     (if has_file_name component
      then Inr (if dry then [] else projr (saveComponent component False))
      else Inl no_default_value)"
  by (auto simp: saveComponent_def has_file_name_def split: option.splits)

lemma save_components_eq:
  "save_components components dry =
     (if list_all has_file_name components
      then (Inr (),
            if dry then []
            else concat (map (\<lambda>component. projr (saveComponent component False)) components))
      else (Inl no_default_value,
            if dry then []
            else concat (map (\<lambda>component. projr (saveComponent component False))
                           (takeWhile has_file_name components))))"
proof (induction components)
  case Nil
  show ?case by simp
next
  case (Cons c cs)
  show ?case
    by (cases "has_file_name c")
       (simp_all add: Cons.IH saveComponent_dry [of c dry])
qed

text \<open>
  Claim C5, as amended. The template script generates \<open>index.json\<close> and
  \<open>registry.json\<close> exactly when the configuration enables index generation and the run
  is not a dry run; the two writes are the last events of the run and carry the same
  content, whose \<open>itemCount\<close> is the number of succeeded items and whose item list is
  the summaries of the working-set entries with a succeeded name: the names listed
  are exactly the names that succeeded, and the list is the succeeded list itself
  when the working set has no duplicate name. The limeplay and aceternity scripts
  generate the two files, with the same content in both, whenever the run is not a dry
  run and at least one component was fetched, whatever the configuration's toggle
  says; their \<open>itemCount\<close> is the number of fetched components and their item list the
  summaries of these components. (The components are saved first, and the index step is
  reached when every component's file name could be formed; a \<open>name\<close> that has no string
  conversion ends the run at that component, with a non-zero status.)
\<close>

theorem sync_generates_index:
  "generate_index config now opts succ filtered =
     (if generateIndex (outputConfig config) \<and> \<not> dryRun opts
      then [Write (join OUTPUT_DIR ''index.json'') (aggregate_index config now succ filtered),
            Write (join OUTPUT_DIR ''registry.json'') (aggregate_index config now succ filtered)]
      else [])
   \<and> js_prop (aggregate_index config now succ filtered) ''itemCount''
       = Some (JNum (show_nat (length succ)))
   \<and> js_prop (aggregate_index config now succ filtered) ''items''
       = Some (JArr (map entry_summary (filter (\<lambda>c. name c \<in> set succ) filtered)))
   \<and> (fetchRegistryIndex index_net config = (Inr items, tr) \<longrightarrow>
        (case sync index_net detail_net config now opts of
           (Inl err, trace) \<Rightarrow> False
         | (Inr r, trace) \<Rightarrow>
             (\<exists>before. trace = before @ generate_index config now opts (success r)
                                         (filter_items opts config items))
             \<and> synced (stats r) = length (success r)
             \<and> set (map name (filter (\<lambda>c. name c \<in> set (success r))
                                  (filter_items opts config items))) = set (success r)
             \<and> (distinct (map name (filter_items opts config items)) \<longrightarrow>
                  map name (filter (\<lambda>c. name c \<in> set (success r))
                              (filter_items opts config items)) = success r)))
   \<and> save_all config now components dry =
       (if components = [] then (Inr (), [])
        else if list_all has_file_name components
        then (Inr (),
              if dry then []
              else concat (map (\<lambda>component. projr (saveComponent component False)) components)
                   @ [Mkdir (dirname (join OUTPUT_DIR ''index.json'')),
                      Write (join OUTPUT_DIR ''index.json'') (script_index config now components),
                      Write (join OUTPUT_DIR ''registry.json'')
                        (script_index config now components)])
        else (Inl no_default_value,
              if dry then []
              else concat (map (\<lambda>component. projr (saveComponent component False))
                             (takeWhile has_file_name components))))
   \<and> js_prop (script_index config now components) ''itemCount''
       = Some (JNum (show_nat (length components)))
   \<and> js_prop (script_index config now components) ''items''
       = Some (JArr (map component_summary components))"
proof (intro conjI impI)
  show "generate_index config now opts succ filtered =
     (if generateIndex (outputConfig config) \<and> \<not> dryRun opts
      then [Write (join OUTPUT_DIR ''index.json'') (aggregate_index config now succ filtered),
            Write (join OUTPUT_DIR ''registry.json'') (aggregate_index config now succ filtered)]
      else [])"
    by (simp add: generate_index_def)
  show "js_prop (aggregate_index config now succ filtered) ''itemCount''
       = Some (JNum (show_nat (length succ)))"
    by (simp add: aggregate_index_def)
  show "js_prop (aggregate_index config now succ filtered) ''items''
       = Some (JArr (map entry_summary (filter (\<lambda>c. name c \<in> set succ) filtered)))"
    by (simp add: aggregate_index_def)
  show "save_all config now components dry =
       (if components = [] then (Inr (), [])
        else if list_all has_file_name components
        then (Inr (),
              if dry then []
              else concat (map (\<lambda>component. projr (saveComponent component False)) components)
                   @ [Mkdir (dirname (join OUTPUT_DIR ''index.json'')),
                      Write (join OUTPUT_DIR ''index.json'') (script_index config now components),
                      Write (join OUTPUT_DIR ''registry.json'')
                        (script_index config now components)])
        else (Inl no_default_value,
              if dry then []
              else concat (map (\<lambda>component. projr (saveComponent component False))
                             (takeWhile has_file_name components))))"
    by (simp add: save_all_def save_components_eq saveRegistryIndex_def)
  show "js_prop (script_index config now components) ''itemCount''
       = Some (JNum (show_nat (length components)))"
    by (simp add: script_index_def)
  show "js_prop (script_index config now components) ''items''
       = Some (JArr (map component_summary components))"
    by (simp add: script_index_def)
next
  assume idx: "fetchRegistryIndex index_net config = (Inr items, tr)"
  let ?ws = "filter_items opts config items"
  obtain succ' fails item_tr where loop:
    "sync_items detail_net config (dryRun opts) ?ws = (succ', fails, item_tr)"
    by (cases "sync_items detail_net config (dryRun opts) ?ws") auto
  have s: "succ' = map name (filter (\<lambda>i. dryRun opts \<or> fst (sync_item detail_net config i) = Inr ()) ?ws)"
    using sync_items_success [of detail_net config "dryRun opts" ?ws] loop by simp
  have d: "distinct (map name ?ws) \<longrightarrow>
             map name (filter (\<lambda>c. name c \<in> set succ') ?ws) = succ'"
    unfolding s using filter_by_distinct_names [of ?ws] by simp
  show "case sync index_net detail_net config now opts of
           (Inl err, trace) \<Rightarrow> False
         | (Inr r, trace) \<Rightarrow>
             (\<exists>before. trace = before @ generate_index config now opts (success r) ?ws)
             \<and> synced (stats r) = length (success r)
             \<and> set (map name (filter (\<lambda>c. name c \<in> set (success r)) ?ws)) = set (success r)
             \<and> (distinct (map name ?ws) \<longrightarrow>
                  map name (filter (\<lambda>c. name c \<in> set (success r)) ?ws) = success r)"
    unfolding sync_result [OF idx loop]
    using succeeded_entries [OF loop] d by simp
qed

text \<open>
  The hypotheses of C5's theorem hold of the run over \<open>a\<close> (valid) and \<open>b\<close> (rejected by the
  validator): \<open>a\<close> succeeds, \<open>b\<close> fails, both index files are written last with the
  same content, whose item list holds \<open>a\<close> only and whose \<open>itemCount\<close> is 1.
\<close>

theorem sync_generates_index_witness:
  "fetchRegistryIndex (serve_index [entry_named ''a'', entry_named ''b'']) (config_with [] [] True)
     = (Inr [entry_named ''a'', entry_named ''b''], [Fetch ''https://r.test/registry.json''])
   \<and> (case sync (serve_index [entry_named ''a'', entry_named ''b''])
              (serve [(''https://r.test/a.json'', item_named ''a''),
                      (''https://r.test/b.json'', bogus_named ''b'')])
              (config_with [] [] True) ''now'' \<lparr>only = [], dryRun = False\<rparr> of
         (Inl err, trace) \<Rightarrow> False
       | (Inr r, trace) \<Rightarrow>
           success r = [''a''] \<and> failed r = [(''b'', ''Invalid type: bogus'')]
           \<and> (\<exists>before. trace = before @
                 [Write (join OUTPUT_DIR ''index.json'')
                    (aggregate_index (config_with [] [] True) ''now'' [''a'']
                       [entry_named ''a'', entry_named ''b'']),
                  Write (join OUTPUT_DIR ''registry.json'')
                    (aggregate_index (config_with [] [] True) ''now'' [''a'']
                       [entry_named ''a'', entry_named ''b''])]))
   \<and> js_prop (aggregate_index (config_with [] [] True) ''now'' [''a'']
                [entry_named ''a'', entry_named ''b'']) ''itemCount'' = Some (JNum ''1'')
   \<and> js_prop (aggregate_index (config_with [] [] True) ''now'' [''a'']
                [entry_named ''a'', entry_named ''b'']) ''items''
       = Some (JArr [JObj [(''name'', JStr ''a''), (''type'', JStr ''registry:ui'')]])"
proof -
  let ?idx = "serve_index [entry_named ''a'', entry_named ''b'']"
  let ?det = "serve [(''https://r.test/a.json'', item_named ''a''),
                      (''https://r.test/b.json'', bogus_named ''b'')]"
  let ?cfg = "config_with [] [] True"
  let ?opts = "\<lparr>only = [], dryRun = False\<rparr>"
  let ?items = "[entry_named ''a'', entry_named ''b'']"
  have idx: "fetchRegistryIndex ?idx ?cfg = (Inr ?items, [Fetch ''https://r.test/registry.json''])"
    by code_simp
  have ws: "filter_items ?opts ?cfg ?items = ?items"
    by (simp add: filter_items_def config_with_def)
  have res: "success (projr (fst (sync ?idx ?det ?cfg ''now'' ?opts))) = [''a'']
             \<and> failed (projr (fst (sync ?idx ?det ?cfg ''now'' ?opts)))
                 = [(''b'', ''Invalid type: bogus'')]"
    by code_simp
  have gen: "generate_index ?cfg ''now'' ?opts [''a''] ?items =
       [Write (join OUTPUT_DIR ''index.json'') (aggregate_index ?cfg ''now'' [''a''] ?items),
        Write (join OUTPUT_DIR ''registry.json'') (aggregate_index ?cfg ''now'' [''a''] ?items)]"
    by code_simp
  have "case sync ?idx ?det ?cfg ''now'' ?opts of
           (Inl err, trace) \<Rightarrow> False
         | (Inr r, trace) \<Rightarrow>
             (\<exists>before. trace = before @ generate_index ?cfg ''now'' ?opts (success r)
                                         (filter_items ?opts ?cfg ?items))
             \<and> synced (stats r) = length (success r)
             \<and> set (map name (filter (\<lambda>c. name c \<in> set (success r))
                                  (filter_items ?opts ?cfg ?items))) = set (success r)
             \<and> (distinct (map name (filter_items ?opts ?cfg ?items)) \<longrightarrow>
                  map name (filter (\<lambda>c. name c \<in> set (success r))
                              (filter_items ?opts ?cfg ?items)) = success r)"
    by (rule sync_generates_index [THEN conjunct2, THEN conjunct2, THEN conjunct2,
          THEN conjunct1, THEN mp, OF idx])
  then have run: "case sync ?idx ?det ?cfg ''now'' ?opts of
         (Inl err, trace) \<Rightarrow> False
       | (Inr r, trace) \<Rightarrow>
           success r = [''a''] \<and> failed r = [(''b'', ''Invalid type: bogus'')]
           \<and> (\<exists>before. trace = before @
                 [Write (join OUTPUT_DIR ''index.json'') (aggregate_index ?cfg ''now'' [''a''] ?items),
                  Write (join OUTPUT_DIR ''registry.json'') (aggregate_index ?cfg ''now'' [''a''] ?items)])"
    using res gen unfolding ws by (auto split: prod.splits sum.splits)
  have count: "js_prop (aggregate_index ?cfg ''now'' [''a''] ?items) ''itemCount'' = Some (JNum ''1'')"
    using sync_generates_index [of ?cfg "''now''" ?opts "[''a'']" ?items,
        THEN conjunct2, THEN conjunct1]
    by (simp add: show_nat.simps)
  have list: "js_prop (aggregate_index ?cfg ''now'' [''a''] ?items) ''items''
       = Some (JArr [JObj [(''name'', JStr ''a''), (''type'', JStr ''registry:ui'')]])"
    by (simp add: aggregate_index_def entry_summary_def entry_named_def)
  from idx run count list show ?thesis by blast
qed

text \<open>
  Claim C5 as stated fails for the limeplay script, which the claim is drawn from (and
  for aceternity's, which has the same \<open>main\<close>): with index generation disabled in the
  configuration, a normal run still writes \<open>index.json\<close>.
\<close>

theorem limeplay_ignores_generateIndex:
  "\<not> generateIndex (outputConfig (config_with [] [] False))
   \<and> Write (join OUTPUT_DIR ''index.json'')
        (script_index (config_with [] [] False) ''now'' [item_named ''a''])
     \<in> set (snd (limeplay_main (serve_index [entry_named ''a''])
                  (serve [(''https://r.test/a.json'', item_named ''a'')])
                  (config_with [] [] False) ''now'' [] None False))"
  by code_simp

section \<open>Partial failure\<close>










section \<open>The multi-source runner\<close>






text \<open>
  The theorem of C9 does not reach a script that calls \<open>main()\<close> at module level. The
  import of such a script starts a run that nothing awaits, beside the subprocess
  that is awaited, so the script runs twice; and when the un-awaited run fails, its
  \<open>process.exit(1)\<close> ends the runner. Here \<open>delta\<close>, whose index endpoint is down, is
  followed by \<open>beta\<close>: with the un-awaited run failing first, no result is recorded and
  \<open>beta\<close> is never run; when it fails after the two results are recorded, both
  registries get their result. A script of this kind that succeeds, \<open>epsilon\<close>, still
  runs twice.
\<close>

lemma top_level_main_ends_runner:
  "sync_all_main (Inr [''delta'', ''beta'']) demo_scripts (\<lambda>nm. 0) False
     = (1, [], [], [(''delta'', snd (run_script False (demo_scripts ''delta'')))])
   \<and> sync_all_main (Inr [''delta'', ''beta'']) demo_scripts (\<lambda>nm. 2) False
     = (1,
        [\<lparr>registry = ''delta'', succeeded = False, errorMessage = Some ''Exit code: 1''\<rparr>,
         \<lparr>registry = ''beta'', succeeded = True, errorMessage = None\<rparr>],
        map (Pair ''delta'') (snd (run_script False (demo_scripts ''delta'')))
        @ map (Pair ''beta'') (snd (run_script False (demo_scripts ''beta''))),
        [(''delta'', snd (run_script False (demo_scripts ''delta'')))])
   \<and> sync_all_main (Inr [''epsilon'']) demo_scripts (\<lambda>nm. 0) False
     = (0,
        [\<lparr>registry = ''epsilon'', succeeded = True, errorMessage = None\<rparr>],
        map (Pair ''epsilon'') (snd (run_script False (demo_scripts ''epsilon''))),
        [(''epsilon'', snd (run_script False (demo_scripts ''epsilon'')))])"
  by code_simp

end
